theory Spec2Isabelle
  imports Main
begin

section \<open>Python values\<close>

text \<open>
  The fields of a \<open>Task\<close> and the values handlers return are dynamically typed. A task
  built by \<open>_extract_task_from_response\<close> carries whatever \<open>json.loads\<close> decoded, so the
  model keeps the JSON value universe: \<open>None\<close>, booleans, integers, floats, strings,
  lists and string-keyed dictionaries. A float is represented by its \<open>repr\<close> text (no
  floating-point arithmetic is performed anywhere in the code). A \<open>char\<close> stands for one
  code point below 256 of a Python \<open>str\<close>, so \<open>length\<close> is Python's \<open>len\<close>. A
  dictionary lists each key once, in insertion order.
\<close>

datatype pyval =
    PNone
  | PBool bool
  | PInt int
  | PFloat string
  | PStr string
  | PList "pyval list"
  | PDict "(string \<times> pyval) list"

text \<open>\<open>bool(v)\<close>: what \<open>if v\<close>, \<open>not v\<close> and \<open>all([...])\<close> test.\<close>

fun py_truthy :: "pyval \<Rightarrow> bool" where
  "py_truthy PNone = False"
| "py_truthy (PBool b) = b"
| "py_truthy (PInt i) = (i \<noteq> 0)"
| "py_truthy (PFloat r) = (r \<noteq> ''0.0'' \<and> r \<noteq> ''-0.0'')"
| "py_truthy (PStr s) = (s \<noteq> [])"
| "py_truthy (PList xs) = (xs \<noteq> [])"
| "py_truthy (PDict kvs) = (kvs \<noteq> [])"

text \<open>\<open>hash(v)\<close> raises \<open>TypeError\<close> on lists and dictionaries.\<close>

fun py_hashable :: "pyval \<Rightarrow> bool" where
  "py_hashable (PList xs) = False"
| "py_hashable (PDict kvs) = False"
| "py_hashable v = True"

section \<open>Exceptions\<close>

text \<open>
  The code separates exceptions in two ways only: \<open>except Exception\<close> (which lets
  \<open>KeyboardInterrupt\<close>, \<open>SystemExit\<close> and \<open>GeneratorExit\<close> pass) and
  \<open>except (json.JSONDecodeError, KeyError)\<close>. \<open>Raised c s\<close> is an exception of class
  \<open>c\<close> with \<open>str(e) = s\<close> raised by a collaborator (a handler operation, the
  chat service, \<open>json.loads\<close>); the other constructors are the errors the interpreter
  itself raises in the modelled code.
\<close>

datatype exn_class =
    JSONDecodeError | KeyError | TypeError | AttributeError | ValueError
  | OtherException
  | NonException

datatype exn =
    Raised exn_class string
  | Unhashable pyval
  | AttrNameNotString pyval
  | NotCallable string
  | KwargsNotMapping pyval
  | NoAttribute pyval string
  | CannotUnpack string
  | NotIterable pyval
  | BadSubscript pyval

fun class_of :: "exn \<Rightarrow> exn_class" where
  "class_of (Raised c s) = c"
| "class_of (NoAttribute v n) = AttributeError"
| "class_of (CannotUnpack s) = ValueError"
| "class_of e = TypeError"

definition is_Exception :: "exn \<Rightarrow> bool" where
  "is_Exception e = (class_of e \<noteq> NonException)"

section \<open>The interpreter and the libraries\<close>

text \<open>
  What the code takes from outside the repository is a parameter of the model:
  \<open>json.loads\<close>, the clock read by \<open>datetime.now().strftime("%I:%M %p")\<close>, the
  text \<open>str(v)\<close> of a value that is not a string, and the text \<open>str(e)\<close> of an
  error raised by the interpreter.
\<close>

record runtime =
  json_loads :: "string \<Rightarrow> exn + pyval"
  strftime_now :: string
  str_of :: "pyval \<Rightarrow> string"
  err_text :: "exn \<Rightarrow> string"

definition py_str :: "runtime \<Rightarrow> pyval \<Rightarrow> string" where
  "py_str R v = (case v of PStr s \<Rightarrow> s | PFloat r \<Rightarrow> r | _ \<Rightarrow> str_of R v)"

definition exn_str :: "runtime \<Rightarrow> exn \<Rightarrow> string" where
  "exn_str R e = (case e of Raised c s \<Rightarrow> s | _ \<Rightarrow> err_text R e)"

section \<open>Strings\<close>

text \<open>\<open>str.lower()\<close> on code points below 256: A-Z and the Latin-1 capitals
  (U+00C0 to U+00DE without the multiplication sign U+00D7) move up by 32.\<close>

definition py_lower_char :: "char \<Rightarrow> char" where
  "py_lower_char c =
     (let n = (of_char c :: nat) in
      if (65 \<le> n \<and> n \<le> 90) \<or> (192 \<le> n \<and> n \<le> 222 \<and> n \<noteq> 215)
      then char_of (n + 32) else c)"

definition py_lower :: "string \<Rightarrow> string" where
  "py_lower s = map py_lower_char s"

text \<open>\<open>str.isspace()\<close> on one code point below 256.\<close>

definition py_isspace :: "char \<Rightarrow> bool" where
  "py_isspace c =
     (let n = (of_char c :: nat) in
      (9 \<le> n \<and> n \<le> 13) \<or> (28 \<le> n \<and> n \<le> 32) \<or> n = 133 \<or> n = 160)"

definition py_strip :: "string \<Rightarrow> string" where
  "py_strip s = rev (dropWhile py_isspace (rev (dropWhile py_isspace s)))"

text \<open>\<open>s.find(c)\<close> and \<open>s.rfind(c)\<close> for a one-character \<open>c\<close>: the first and the last
  index of \<open>c\<close>, or \<open>-1\<close>.\<close>

fun py_find :: "string \<Rightarrow> char \<Rightarrow> int" where
  "py_find [] c = -1"
| "py_find (x # xs) c =
     (if x = c then 0 else (let i = py_find xs c in if i = -1 then -1 else i + 1))"

definition py_rfind :: "string \<Rightarrow> char \<Rightarrow> int" where
  "py_rfind s c =
     (let i = py_find (rev s) c in if i = -1 then -1 else int (length s) - 1 - i)"

text \<open>\<open>s[a:b]\<close>: a negative index counts from the end, both are clamped to
  \<open>0..len(s)\<close>, and the slice is empty when the bounds cross.\<close>

definition py_slice :: "string \<Rightarrow> int \<Rightarrow> int \<Rightarrow> string" where
  "py_slice s a b =
     (let n = int (length s);
          clamp = (\<lambda>i. if i < 0 then max 0 (n + i) else min n i);
          lo = clamp a;
          hi = clamp b
      in take (nat (hi - lo)) (drop (nat lo) s))"

text \<open>\<open>sub in s\<close> on strings: \<open>sub\<close> occurs in \<open>s\<close> as a contiguous run.\<close>

fun py_contains :: "string \<Rightarrow> string \<Rightarrow> bool" where
  "py_contains sub [] = (sub = [])"
| "py_contains sub (x # xs) = (take (length sub) (x # xs) = sub \<or> py_contains sub xs)"

text \<open>\<open>any(word in s for word in words)\<close>.\<close>

definition any_word_in :: "string list \<Rightarrow> string \<Rightarrow> bool" where
  "any_word_in ws s = list_ex (\<lambda>word. py_contains word s) ws"

section \<open>core/ai\_engine.py\<close>

record Task =
  action :: pyval
  category :: pyval
  parameters :: pyval
  description :: pyval

text \<open>\<open>AIEngine\<close>: \<open>has_api_key\<close>, and \<open>client\<close>, which stands for
  \<open>self.client.chat.completions.create(...).choices[0].message.content\<close>: given the user
  message it returns the content of the reply, or raises.\<close>

record AIEngine =
  has_api_key :: bool
  client :: "string \<Rightarrow> exn + string"

text \<open>What \<open>process_command\<close> and \<open>_process_with_openai\<close> hand back: a 2-tuple
  \<open>(response, task)\<close>, or a bare \<open>str\<close>.\<close>

datatype returned =
    Tuple2 string "Task option"
  | Plain string

definition fallback_response :: "runtime \<Rightarrow> string \<Rightarrow> string" where
  "fallback_response R voice_input =
     (let input_lower = py_lower voice_input in
      if any_word_in [''shutdown'', ''turn off'', ''power off''] input_lower then
        ''I can help you shut down the computer. Please use the GUI or type 'shutdown' in the command line.''
      else if any_word_in [''restart'', ''reboot''] input_lower then
        ''I can help you restart the computer. Please use the GUI or type 'restart' in the command line.''
      else if any_word_in [''volume'', ''sound''] input_lower then
        ''I can help you control the volume. Please use the volume controls or let me know if you want me to adjust it.''
      else if any_word_in [''time'', ''what time''] input_lower then
        ''The current time is '' @ strftime_now R @ ''.''
      else if any_word_in [''weather'', ''temperature''] input_lower then
        ''I can't check the weather right now, but you can ask me to open a weather website for you.''
      else if any_word_in [''hello'', ''hi'', ''hey''] input_lower then
        ''Hello! I'm your AI assistant. I can help you control your computer, manage files, and automate tasks. What would you like me to do?''
      else
        ''I heard you say '' @ [CHR 0x27] @ voice_input @ [CHR 0x27] @ ''. I'm here to help! You can ask me to control your computer, manage files, or help with various tasks.'')"


text \<open>\<open>field in task_data\<close> for a string \<open>field\<close>: key membership in a dictionary,
  element membership in a list, substring test in a string, \<open>TypeError\<close> otherwise.\<close>

fun py_in :: "string \<Rightarrow> pyval \<Rightarrow> exn + bool" where
  "py_in k (PDict kvs) = Inr (k \<in> set (map fst kvs))"
| "py_in k (PList xs) = Inr (PStr k \<in> set xs)"
| "py_in k (PStr s) = Inr (py_contains k s)"
| "py_in k v = Inl (NotIterable v)"

text \<open>\<open>all(field in task_data for field in required_fields)\<close>: stops at the first
  field that is missing.\<close>

fun all_fields_in :: "string list \<Rightarrow> pyval \<Rightarrow> exn + bool" where
  "all_fields_in [] d = Inr True"
| "all_fields_in (f # fs) d =
     (case py_in f d of
        Inl e \<Rightarrow> Inl e
      | Inr present \<Rightarrow> if present then all_fields_in fs d else Inr False)"

text \<open>\<open>task_data[k]\<close> and \<open>task_data.get(k, default)\<close>.\<close>

fun py_getitem :: "pyval \<Rightarrow> string \<Rightarrow> exn + pyval" where
  "py_getitem (PDict kvs) k =
     (case map_of kvs k of
        None \<Rightarrow> Inl (Raised KeyError (CHR 0x27 # k @ [CHR 0x27]))
      | Some v \<Rightarrow> Inr v)"
| "py_getitem v k = Inl (BadSubscript v)"

fun py_dict_get :: "pyval \<Rightarrow> string \<Rightarrow> pyval \<Rightarrow> exn + pyval" where
  "py_dict_get (PDict kvs) k d = Inr (case map_of kvs k of None \<Rightarrow> d | Some v \<Rightarrow> v)"
| "py_dict_get v k d = Inl (NoAttribute v ''get'')"

definition required_fields :: "string list" where
  "required_fields = [''action'', ''category'', ''parameters'', ''description'']"

text \<open>The call \<open>Task(action=task_data['action'], ...)\<close>: the arguments are evaluated
  left to right; the constructor checks no types.\<close>

definition build_task :: "pyval \<Rightarrow> exn + Task option" where
  "build_task task_data =
     (case py_getitem task_data ''action'' of
        Inl e \<Rightarrow> Inl e
      | Inr a \<Rightarrow>
     (case py_getitem task_data ''category'' of
        Inl e \<Rightarrow> Inl e
      | Inr c \<Rightarrow>
     (case py_dict_get task_data ''parameters'' (PDict []) of
        Inl e \<Rightarrow> Inl e
      | Inr p \<Rightarrow>
     (case py_getitem task_data ''description'' of
        Inl e \<Rightarrow> Inl e
      | Inr d \<Rightarrow>
          Inr (Some \<lparr>action = a, category = c, parameters = p, description = d\<rparr>)))))"

definition extract_task_from_response :: "runtime \<Rightarrow> string \<Rightarrow> exn + Task option" where
  "extract_task_from_response R response =
     (let start_idx = py_find response CHR ''{'';
          end_idx = py_rfind response CHR ''}'';
          body =
            (if start_idx \<noteq> -1 \<and> end_idx \<noteq> -1 then
               (let json_str = py_slice response start_idx (end_idx + 1) in
                case json_loads R json_str of
                  Inl e \<Rightarrow> Inl e
                | Inr task_data \<Rightarrow>
                    (case all_fields_in required_fields task_data of
                       Inl e \<Rightarrow> Inl e
                     | Inr complete \<Rightarrow>
                         if complete then build_task task_data else Inr None))
             else Inr None)
      in case body of
           Inl e \<Rightarrow>
             if class_of e = JSONDecodeError \<or> class_of e = KeyError then Inr None else Inl e
         | Inr r \<Rightarrow> Inr r)"

definition user_message :: "string \<Rightarrow> string" where
  "user_message voice_input =
     ''User command: '' @ voice_input @ [CHR 0x0A, CHR 0x0A]
       @ ''Respond with either a helpful message or a JSON task object.''"

text \<open>\<open>_process_with_openai\<close>. A \<open>Task\<close> instance is always true in \<open>if task\<close> (the
  dataclass defines neither \<open>__bool__\<close> nor \<open>__len__\<close>). \<open>task.description.lower()\<close>
  raises \<open>AttributeError\<close> unless the description is a string. The handler
  \<open>except Exception\<close> returns \<open>self._fallback_response(voice_input)\<close>, a bare string.\<close>

definition process_with_openai :: "runtime \<Rightarrow> AIEngine \<Rightarrow> string \<Rightarrow> exn + returned" where
  "process_with_openai R self voice_input =
     (let body =
            (case client self (user_message voice_input) of
               Inl e \<Rightarrow> Inl e
             | Inr content \<Rightarrow>
                 (let response_text = py_strip content in
                  case extract_task_from_response R response_text of
                    Inl e \<Rightarrow> Inl e
                  | Inr None \<Rightarrow> Inr (Tuple2 response_text None)
                  | Inr (Some task) \<Rightarrow>
                      (case description task of
                         PStr d \<Rightarrow> Inr (Tuple2 (''I'll '' @ py_lower d @ ''.'') (Some task))
                       | v \<Rightarrow> Inl (NoAttribute v ''lower''))))
      in case body of
           Inl e \<Rightarrow>
             if is_Exception e then Inr (Plain (fallback_response R voice_input)) else Inl e
         | Inr r \<Rightarrow> Inr r)"

definition apology :: string where
  "apology = ''I'm sorry, I encountered an error processing your command.''"

text \<open>\<open>process_command\<close>. Offline it returns what \<open>_fallback_response\<close> returns. Online,
  \<open>response, task = self._process_with_openai(voice_input)\<close> unpacks a 2-tuple; a bare
  string unpacks only when it has exactly two characters (then \<open>task\<close> is a one-character
  string, true in \<open>if task\<close>, and \<open>task.action\<close> raises \<open>AttributeError\<close>), and raises
  \<open>ValueError\<close> otherwise.\<close>

definition process_command :: "runtime \<Rightarrow> AIEngine \<Rightarrow> string \<Rightarrow> exn + returned" where
  "process_command R self voice_input =
     (let body =
            (if \<not> has_api_key self then Inr (Plain (fallback_response R voice_input))
             else
               (case process_with_openai R self voice_input of
                  Inl e \<Rightarrow> Inl e
                | Inr (Tuple2 response task) \<Rightarrow>
                    (case task of
                       Some t \<Rightarrow> Inr (Tuple2 response (Some t))
                     | None \<Rightarrow> Inr (Tuple2 response None))
                | Inr (Plain s) \<Rightarrow>
                    if length s = 2 then Inl (NoAttribute (PStr [s ! 1]) ''action'')
                    else Inl (CannotUnpack s)))
      in case body of
           Inl e \<Rightarrow> if is_Exception e then Inr (Tuple2 apology None) else Inl e
         | Inr r \<Rightarrow> Inr r)"

definition valid_categories :: "pyval list" where
  "valid_categories = [PStr ''system'', PStr ''file'', PStr ''web'', PStr ''ai'']"

text \<open>\<open>AIEngine.validate_task\<close>. Nothing in its body raises on the values of the model,
  so its \<open>except Exception: return False\<close> is never entered.\<close>

definition AIEngine_validate_task :: "Task \<Rightarrow> bool" where
  "AIEngine_validate_task task =
     (if \<not> list_all py_truthy [action task, category task, description task] then False
      else if category task \<notin> set valid_categories then False
      else (case action task of
              PStr a \<Rightarrow> if length a < 2 then False else True
            | _ \<Rightarrow> False))"


section \<open>core/task\_executor.py\<close>

text \<open>
  A handler is any object. The dispatcher observes its truth value (\<open>if not handler\<close>),
  \<open>type(handler).__name__\<close>, its attributes (\<open>hasattr\<close>, \<open>getattr\<close>, \<open>dir\<close>: \<open>attrs\<close>
  lists every attribute once, in the order of \<open>dir\<close>) and, when it is callable, what
  calling it does. An attribute is a method, which takes no argument, keyword arguments
  or one positional task and returns a value or raises, or a value that cannot be called,
  given by the name of its type.
\<close>

datatype args = NoArgs | Kwargs "(string \<times> pyval) list" | Positional Task

datatype attr = Method "args \<Rightarrow> exn + pyval" | Data string

record handler =
  truthy :: bool
  type_name :: string
  attrs :: "(string \<times> attr) list"
  call :: "(Task \<Rightarrow> exn + pyval) option"

text \<open>\<open>self.handlers\<close>: a dictionary from category names to handlers.\<close>

type_synonym registry = "(string \<times> handler) list"

text \<open>The handler operations a dispatch invoked, in order.\<close>

datatype call_event = CallAttr string args | CallSelf Task

fun register_handler :: "registry \<Rightarrow> string \<Rightarrow> handler \<Rightarrow> registry" where
  "register_handler [] c h = [(c, h)]"
| "register_handler ((k, v) # hs) c h =
     (if k = c then (c, h) # hs else (k, v) # register_handler hs c h)"

definition hasattr :: "handler \<Rightarrow> string \<Rightarrow> bool" where
  "hasattr h name = (map_of (attrs h) name \<noteq> None)"

text \<open>Calling the attribute \<open>name\<close> of \<open>h\<close> with the arguments \<open>a\<close>.\<close>

definition call_attr :: "handler \<Rightarrow> string \<Rightarrow> args \<Rightarrow> call_event list \<times> (exn + pyval)" where
  "call_attr h name a =
     (case map_of (attrs h) name of
        Some (Method f) \<Rightarrow> ([CallAttr name a], f a)
      | Some (Data ty) \<Rightarrow> ([], Inl (NotCallable ty))
      | None \<Rightarrow> ([], Inl (Raised AttributeError name)))"

text \<open>\<open>return str(result) if result else "Task completed successfully"\<close>.\<close>

definition text_of_result :: "runtime \<Rightarrow> pyval \<Rightarrow> string" where
  "text_of_result R result =
     (if py_truthy result then py_str R result else ''Task completed successfully'')"

definition result_text ::
  "runtime \<Rightarrow> call_event list \<times> (exn + pyval) \<Rightarrow> call_event list \<times> (exn + string)" where
  "result_text R cr = (fst cr, map_sum id (text_of_result R) (snd cr))"

text \<open>The handler \<open>except Exception as e: return f"Execution failed: {str(e)}"\<close>.\<close>

definition execution_failed :: "runtime \<Rightarrow> exn + string \<Rightarrow> exn + string" where
  "execution_failed R r =
     (case r of
        Inl e \<Rightarrow> if is_Exception e then Inr (''Execution failed: '' @ exn_str R e) else Inl e
      | Inr s \<Rightarrow> Inr s)"

text \<open>\<open>_execute_with_handler\<close>. \<open>hasattr(handler, method_name)\<close> raises \<open>TypeError\<close>
  when the name is not a string; \<open>method(**task.parameters)\<close> raises \<open>TypeError\<close> when
  the parameters are not a mapping, before anything is called.\<close>

definition execute_with_handler ::
  "runtime \<Rightarrow> handler \<Rightarrow> Task \<Rightarrow> call_event list \<times> (exn + string)" where
  "execute_with_handler R h task =
     (let attempt =
            (case action task of
               PStr method_name \<Rightarrow>
                 if hasattr h method_name then
                   result_text R
                     (if py_truthy (parameters task) then
                        (case parameters task of
                           PDict kvs \<Rightarrow> call_attr h method_name (Kwargs kvs)
                         | v \<Rightarrow> ([], Inl (KwargsNotMapping v)))
                      else call_attr h method_name NoArgs)
                 else if hasattr h ''execute'' then
                   result_text R (call_attr h ''execute'' (Positional task))
                 else
                   (case call h of
                      Some f \<Rightarrow> result_text R ([CallSelf task], f task)
                    | None \<Rightarrow>
                        ([], Inr (''Handler '' @ type_name h @ '' doesn't support action: ''
                                   @ method_name)))
             | v \<Rightarrow> ([], Inl (AttrNameNotString v)))
      in (fst attempt, execution_failed R (snd attempt)))"

text \<open>\<open>key in self.handlers\<close> and \<open>self.handlers.get(key)\<close>: the key is hashed first; the
  registry's keys are strings, so only an equal string is found.\<close>

definition dict_has_key :: "(string \<times> 'a) list \<Rightarrow> pyval \<Rightarrow> exn + bool" where
  "dict_has_key d k =
     (if \<not> py_hashable k then Inl (Unhashable k)
      else Inr (case k of PStr s \<Rightarrow> s \<in> set (map fst d) | _ \<Rightarrow> False))"

definition dict_get :: "(string \<times> 'a) list \<Rightarrow> pyval \<Rightarrow> exn + 'a option" where
  "dict_get d k =
     (if \<not> py_hashable k then Inl (Unhashable k)
      else Inr (case k of PStr s \<Rightarrow> map_of d s | _ \<Rightarrow> None))"

text \<open>\<open>TaskExecutor._validate_task\<close>; \<open>not task\<close> is false for a \<open>Task\<close> instance.\<close>

definition TaskExecutor_validate_task :: "registry \<Rightarrow> Task \<Rightarrow> exn + bool" where
  "TaskExecutor_validate_task handlers task =
     (if \<not> py_truthy (action task) \<or> \<not> py_truthy (category task) then Inr False
      else
        (case dict_has_key handlers (category task) of
           Inl e \<Rightarrow> Inl e
         | Inr present \<Rightarrow> if \<not> present then Inr False else Inr True))"

definition execute_task ::
  "runtime \<Rightarrow> registry \<Rightarrow> Task \<Rightarrow> call_event list \<times> (exn + string)" where
  "execute_task R handlers task =
     (let attempt =
            (case TaskExecutor_validate_task handlers task of
               Inl e \<Rightarrow> ([], Inl e)
             | Inr valid \<Rightarrow>
                 if \<not> valid then ([], Inr (''Invalid task: '' @ py_str R (action task)))
                 else
                   (case dict_get handlers (category task) of
                      Inl e \<Rightarrow> ([], Inl e)
                    | Inr None \<Rightarrow>
                        ([], Inr (''No handler registered for category: ''
                                   @ py_str R (category task)))
                    | Inr (Some h) \<Rightarrow>
                        if \<not> truthy h then
                          ([], Inr (''No handler registered for category: ''
                                     @ py_str R (category task)))
                        else execute_with_handler R h task))
      in (fst attempt,
          case snd attempt of
            Inl e \<Rightarrow>
              if is_Exception e then
                Inr (''Error executing task '' @ py_str R (action task) @ '': '' @ exn_str R e)
              else Inl e
          | Inr s \<Rightarrow> Inr s))"

text \<open>\<open>get_available_tasks\<close>: one entry per registered category, the handler's own
  \<open>get_available_actions()\<close> when it has that attribute, else its public callable
  attribute names. Nothing is caught here.\<close>

definition startswith :: "string \<Rightarrow> string \<Rightarrow> bool" where
  "startswith s p = (take (length p) s = p)"

definition callable_attr :: "handler \<Rightarrow> string \<Rightarrow> bool" where
  "callable_attr h name = (case map_of (attrs h) name of Some (Method f) \<Rightarrow> True | _ \<Rightarrow> False)"

definition available_actions :: "handler \<Rightarrow> exn + pyval" where
  "available_actions h =
     (if hasattr h ''get_available_actions'' then
        snd (call_attr h ''get_available_actions'' NoArgs)
      else
        Inr (PList (map PStr
          (filter (\<lambda>method. \<not> startswith method ''_'' \<and> callable_attr h method)
             (map fst (attrs h))))))"

fun available_tasks_loop ::
  "registry \<Rightarrow> (string \<rightharpoonup> pyval) \<Rightarrow> exn + (string \<rightharpoonup> pyval)" where
  "available_tasks_loop [] available_tasks = Inr available_tasks"
| "available_tasks_loop ((cat, h) # rest) available_tasks =
     (case available_actions h of
        Inl e \<Rightarrow> Inl e
      | Inr v \<Rightarrow> available_tasks_loop rest (available_tasks(cat \<mapsto> v)))"

definition get_available_tasks :: "registry \<Rightarrow> exn + (string \<rightharpoonup> pyval)" where
  "get_available_tasks handlers = available_tasks_loop handlers Map.empty"


section \<open>Example collaborators\<close>

text \<open>Concrete tasks, handlers and a concrete runtime, used to run the definitions.\<close>

definition volume_task :: Task where
  "volume_task = \<lparr>action = PStr ''volume_up'', category = PStr ''system'',
     parameters = PDict [], description = PStr ''increase volume''\<rparr>"

text \<open>A decoder that knows three texts and rejects every other one, as \<open>json.loads\<close>
  does on these inputs.\<close>

definition example_loads :: "string \<Rightarrow> exn + pyval" where
  \<open>example_loads s =
     (if s = ''{"action":"volume_up","category":"system","parameters":{},"description":"increase volume"}''
      then Inr (PDict [(''action'', PStr ''volume_up''), (''category'', PStr ''system''),
                       (''parameters'', PDict []), (''description'', PStr ''increase volume'')])
      else if s = ''{"action":"volume_up","category":"system","parameters":{},"description":null}''
      then Inr (PDict [(''action'', PStr ''volume_up''), (''category'', PStr ''system''),
                       (''parameters'', PDict []), (''description'', PNone)])
      else if s = ''{"action":"volume_up","category":"system"}''
      then Inr (PDict [(''action'', PStr ''volume_up''), (''category'', PStr ''system'')])
      else Inl (Raised JSONDecodeError ''Expecting value''))\<close>

text \<open>The interpreter's texts, for the values and errors of the examples.\<close>

fun example_str_of :: "pyval \<Rightarrow> string" where
  "example_str_of PNone = ''None''"
| "example_str_of (PBool b) = (if b then ''True'' else ''False'')"
| "example_str_of v = ''<value>''"

fun example_err_text :: "exn \<Rightarrow> string" where
  "example_err_text (NotCallable ty) = [CHR 0x27] @ ty @ [CHR 0x27] @ '' object is not callable''"
| "example_err_text (Unhashable (PList xs)) = ''unhashable type: 'list'' @ [CHR 0x27]"
| "example_err_text (Unhashable (PDict kvs)) = ''unhashable type: 'dict'' @ [CHR 0x27]"
| "example_err_text e = ''error''"

definition example_runtime :: runtime where
  "example_runtime =
     \<lparr>json_loads = example_loads,
      strftime_now = ''09:30 AM'',
      str_of = example_str_of,
      err_text = example_err_text\<rparr>"

text \<open>A handler shaped like \<open>SystemController\<close>: \<open>volume_up()\<close> reports success,
  \<open>get_system_info()\<close> returns the empty dictionary of its error path.\<close>

definition system_handler :: handler where
  "system_handler =
     \<lparr>truthy = True, type_name = ''SystemController'',
      attrs =
        [(''get_available_actions'', Method (\<lambda>a. Inr (PList (map PStr
            [''shutdown'', ''restart'', ''lock_screen'', ''volume_up'', ''volume_down'',
             ''open_app'', ''close_app'', ''get_system_info'', ''take_screenshot''])))),
         (''get_system_info'', Method (\<lambda>a. case a of
              NoArgs \<Rightarrow> Inr (PDict [])
            | _ \<Rightarrow> Inl (Raised TypeError ''get_system_info() got an unexpected argument''))),
         (''logger'', Data ''Logger''),
         (''volume_up'', Method (\<lambda>a. case a of
              NoArgs \<Rightarrow> Inr (PStr ''Volume increased'')
            | _ \<Rightarrow> Inl (Raised TypeError ''volume_up() got an unexpected argument'')))],
      call = None\<rparr>"

text \<open>A handler shaped like \<open>AIEngine\<close>, which main.py registers for the category
  \<open>ai\<close>: it has data attributes, no \<open>execute\<close> and no \<open>get_available_actions\<close>, and
  is not callable.\<close>

definition engine_handler :: handler where
  "engine_handler =
     \<lparr>truthy = True, type_name = ''AIEngine'',
      attrs =
        [(''_fallback_response'', Method (\<lambda>a. Inl (Raised TypeError ''missing argument''))),
         (''command_patterns'', Data ''dict''),
         (''get_help_text'', Method (\<lambda>a. case a of
              NoArgs \<Rightarrow> Inr (PStr ''I can help you with various tasks'')
            | _ \<Rightarrow> Inl (Raised TypeError ''get_help_text() got an unexpected argument''))),
         (''has_api_key'', Data ''bool''),
         (''logger'', Data ''Logger'')],
      call = None\<rparr>"

text \<open>A handler with a generic \<open>execute(task)\<close> and a data attribute \<open>status\<close>.\<close>

definition plugin_handler :: handler where
  "plugin_handler =
     \<lparr>truthy = True, type_name = ''Plugin'',
      attrs =
        [(''execute'', Method (\<lambda>a. case a of
              Positional t \<Rightarrow> Inr (PStr ''executed'')
            | _ \<Rightarrow> Inl (Raised TypeError ''execute() missing 1 required positional argument''))),
         (''status'', Data ''str'')],
      call = None\<rparr>"

text \<open>A plain function registered as a handler; it returns \<open>None\<close>.\<close>

definition function_handler :: handler where
  "function_handler =
     \<lparr>truthy = True, type_name = ''function'', attrs = [], call = Some (\<lambda>t. Inr PNone)\<rparr>"

text \<open>A handler whose \<open>quit()\<close> calls \<open>sys.exit(0)\<close> (\<open>SystemExit\<close> is not an
  \<open>Exception\<close>), whose \<open>crash()\<close> raises a \<open>RuntimeError\<close>, and whose
  \<open>get_available_actions()\<close> raises too.\<close>

definition exiting_handler :: handler where
  "exiting_handler =
     \<lparr>truthy = True, type_name = ''Exiting'',
      attrs =
        [(''crash'', Method (\<lambda>a. Inl (Raised OtherException ''boom''))),
         (''get_available_actions'', Method (\<lambda>a. Inl (Raised OtherException ''unavailable''))),
         (''quit'', Method (\<lambda>a. Inl (Raised NonException ''0'')))],
      call = None\<rparr>"

text \<open>Replies of the chat service, and engines: one whose service answers with a given
  reply, one whose service call raises, one without an API key (it has no client).\<close>

definition volume_reply :: string where
  \<open>volume_reply = '' Sure, turning it up. {"action":"volume_up","category":"system","parameters":{},"description":"increase volume"} Done. ''\<close>

definition null_reply :: string where
  \<open>null_reply = ''{"action":"volume_up","category":"system","parameters":{},"description":null}''\<close>

text \<open>A reply whose text nests 100000 arrays, and a decoder that stops at its recursion
  limit on it, as \<open>json.loads\<close> does with \<open>RecursionError\<close>.\<close>

definition nested_arrays :: string where
  \<open>nested_arrays = ''"a":'' @ replicate 100000 (CHR ''['')\<close>

definition depth_limited_loads :: "string \<Rightarrow> exn + pyval" where
  "depth_limited_loads s =
     (if s = CHR ''{'' # nested_arrays @ ''}''
      then Inl (Raised OtherException
        ''maximum recursion depth exceeded while decoding a JSON array from a unicode string'')
      else example_loads s)"

definition online_engine :: "string \<Rightarrow> AIEngine" where
  "online_engine reply = \<lparr>has_api_key = True, client = (\<lambda>message. Inr reply)\<rparr>"

definition failing_engine :: AIEngine where
  "failing_engine =
     \<lparr>has_api_key = True, client = (\<lambda>message. Inl (Raised OtherException ''Connection error.''))\<rparr>"

definition offline_engine :: AIEngine where
  "offline_engine =
     \<lparr>has_api_key = False, client = (\<lambda>message. Inl (Raised AttributeError ''client''))\<rparr>"

section \<open>Properties of core/ai\_engine.py\<close>

text \<open>
  C5. \<open>AIEngine.validate_task\<close> returns true exactly when action, category and
  description are all non-empty (true in Python's sense, which for a string means not
  the empty string), the category is one of \<open>system\<close>, \<open>file\<close>, \<open>web\<close>, \<open>ai\<close>, and the
  action is a string of length at least 2. The second part reads the same for a task
  whose three fields are strings.
\<close>

theorem validate_task_iff:
  "(AIEngine_validate_task t \<longleftrightarrow>
      py_truthy (action t) \<and> py_truthy (category t) \<and> py_truthy (description t)
      \<and> category t \<in> {PStr ''system'', PStr ''file'', PStr ''web'', PStr ''ai''}
      \<and> (\<exists>a. action t = PStr a \<and> 2 \<le> length a))
   \<and> (AIEngine_validate_task
         \<lparr>action = PStr a', category = PStr c', parameters = p', description = PStr d'\<rparr> \<longleftrightarrow>
      a' \<noteq> [] \<and> c' \<noteq> [] \<and> d' \<noteq> []
      \<and> c' \<in> {''system'', ''file'', ''web'', ''ai''}
      \<and> 2 \<le> length a')"
proof -
  have general: "AIEngine_validate_task u \<longleftrightarrow>
      py_truthy (action u) \<and> py_truthy (category u) \<and> py_truthy (description u)
      \<and> category u \<in> {PStr ''system'', PStr ''file'', PStr ''web'', PStr ''ai''}
      \<and> (\<exists>a. action u = PStr a \<and> 2 \<le> length a)" for u
    unfolding AIEngine_validate_task_def valid_categories_def
    by (cases "action u") (auto simp: not_less)
  show ?thesis
    unfolding general [of t]
    unfolding general [of "\<lparr>action = PStr a', category = PStr c', parameters = p',
      description = PStr d'\<rparr>"]
    by auto
qed

theorem validate_task_iff_witness:
  "AIEngine_validate_task volume_task
   \<and> \<not> AIEngine_validate_task (volume_task\<lparr>category := PStr ''audio''\<rparr>)
   \<and> \<not> AIEngine_validate_task (volume_task\<lparr>action := PStr ''v''\<rparr>)
   \<and> \<not> AIEngine_validate_task (volume_task\<lparr>action := PInt 42\<rparr>)
   \<and> \<not> AIEngine_validate_task (volume_task\<lparr>description := PStr []\<rparr>)"
  using validate_task_iff [of volume_task]
    validate_task_iff [of "volume_task\<lparr>category := PStr ''audio''\<rparr>"]
    validate_task_iff [of "volume_task\<lparr>action := PStr ''v''\<rparr>"]
    validate_task_iff [of "volume_task\<lparr>action := PInt 42\<rparr>"]
    validate_task_iff [of "volume_task\<lparr>description := PStr []\<rparr>"]
  by (simp add: volume_task_def)

subsection \<open>Strings\<close>

text \<open>\<open>find\<close> gives the first index of the character, \<open>rfind\<close> the last, and the slice
  between them is the embedded text; \<open>strip\<close> leaves it in place.\<close>

lemma py_find_ge: "- 1 \<le> py_find s c"
  by (induction s) (auto simp: Let_def)

lemma py_find_lt: "py_find s c < int (length s)"
  by (induction s) (auto simp: Let_def)

lemma py_find_absent: "py_find s c = - 1 \<longleftrightarrow> c \<notin> set s"
proof (induction s)
  case Nil
  then show ?case by simp
next
  case (Cons x xs)
  then show ?case
    using py_find_ge [of xs c] by (auto simp: Let_def)
qed

lemma py_find_first: "c \<notin> set pre \<Longrightarrow> py_find (pre @ c # rest) c = int (length pre)"
  by (induction pre) (auto simp: Let_def)

lemma py_rfind_absent: "py_rfind s c = - 1 \<longleftrightarrow> c \<notin> set s"
  using py_find_lt [of "rev s" c] py_find_absent [of "rev s" c]
  by (auto simp: py_rfind_def Let_def)

lemma py_rfind_last: "c \<notin> set post \<Longrightarrow> py_rfind (pre @ c # post) c = int (length pre)"
  using py_find_first [of c "rev post" "rev pre"]
  by (simp add: py_rfind_def)

lemma py_slice_middle:
  "b = int (length pre) + int (length mid)
     \<Longrightarrow> py_slice (pre @ mid @ post) (int (length pre)) b = mid"
  by (simp add: py_slice_def Let_def)

lemma py_strip_around:
  assumes "js \<noteq> []" "\<not> py_isspace (hd js)" "\<not> py_isspace (last js)"
  shows "py_strip (pre @ js @ post)
     = dropWhile py_isspace pre @ js @ rev (dropWhile py_isspace (rev post))"
proof -
  have left: "dropWhile py_isspace (pre @ js @ post) = dropWhile py_isspace pre @ js @ post"
    using assms(1,2) by (cases js) (auto simp: dropWhile_append)
  have right: "dropWhile py_isspace (rev post @ rev js @ xs)
      = dropWhile py_isspace (rev post) @ rev js @ xs" for xs
    using assms(1,3) by (cases js rule: rev_cases) (auto simp: dropWhile_append)
  show ?thesis
    by (simp add: py_strip_def left right)
qed


lemma py_find_append:
  "c \<notin> set u \<Longrightarrow> py_find (u @ w) c = (if c \<in> set w then int (length u) + py_find w c else - 1)"
proof (induction u)
  case Nil
  then show ?case using py_find_absent [of w c] by simp
next
  case (Cons x u)
  then show ?case
    using py_find_absent [of w c] py_find_ge [of w c] by (auto simp: Let_def)
qed

lemma py_rfind_lt: "py_rfind s c < int (length s)"
  using py_find_ge [of "rev s" c] by (simp add: py_rfind_def Let_def)

lemma py_rfind_ge: "- 1 \<le> py_rfind s c"
  using py_find_lt [of "rev s" c] by (simp add: py_rfind_def Let_def)

lemma py_rfind_append:
  "c \<notin> set w \<Longrightarrow> py_rfind (u @ w) c = py_rfind u c"
  using py_find_append [of c "rev w" "rev u"] py_find_absent [of "rev u" c]
    py_find_ge [of "rev u" c]
  by (auto simp: py_rfind_def Let_def)

lemma py_slice_crossed:
  "0 \<le> b \<Longrightarrow> b \<le> a \<Longrightarrow> py_slice s a b = []"
  by (auto simp: py_slice_def Let_def min_def max_def)

lemma py_contains_iff: "py_contains sub s \<longleftrightarrow> (\<exists>a b. s = a @ sub @ b)"
proof (induction s)
  case Nil
  then show ?case by auto
next
  case (Cons x xs)
  have "take (length sub) (x # xs) = sub \<longleftrightarrow> (\<exists>b. x # xs = sub @ b)"
    by (metis append_eq_conv_conj append_take_drop_id)
  moreover have "(\<exists>a b. x # xs = a @ sub @ b)
      \<longleftrightarrow> (\<exists>b. x # xs = sub @ b) \<or> (\<exists>a b. xs = a @ sub @ b)"
  proof
    assume "\<exists>a b. x # xs = a @ sub @ b"
    then obtain a b where ab: "x # xs = a @ sub @ b" by blast
    show "(\<exists>b. x # xs = sub @ b) \<or> (\<exists>a b. xs = a @ sub @ b)"
    proof (cases a)
      case Nil
      with ab show ?thesis by auto
    next
      case (Cons y ys)
      with ab have "xs = ys @ sub @ b" by simp
      then show ?thesis by blast
    qed
  next
    assume "(\<exists>b. x # xs = sub @ b) \<or> (\<exists>a b. xs = a @ sub @ b)"
    then show "\<exists>a b. x # xs = a @ sub @ b"
    proof
      assume "\<exists>b. x # xs = sub @ b"
      then obtain b where "x # xs = [] @ sub @ b" by auto
      then show ?thesis by blast
    next
      assume "\<exists>a b. xs = a @ sub @ b"
      then obtain a b where "x # xs = (x # a) @ sub @ b" by auto
      then show ?thesis by blast
    qed
  qed
  ultimately show ?case using Cons.IH by simp
qed

lemma set_py_strip: "set (py_strip s) \<subseteq> set s"
proof -
  have "set (py_strip s) \<subseteq> set (dropWhile py_isspace s)"
    unfolding py_strip_def using set_dropWhileD by fastforce
  also have "\<dots> \<subseteq> set s"
    using set_dropWhileD by fastforce
  finally show ?thesis .
qed

lemma py_strip_window: "\<exists>m n. py_strip s = take n (drop m s)"
proof -
  let ?t = "dropWhile py_isspace s"
  have "py_strip s = rev (drop (length (takeWhile py_isspace (rev ?t))) (rev ?t))"
    by (simp add: py_strip_def dropWhile_eq_drop [of py_isspace "rev ?t"])
  also have "\<dots> = take (length ?t - length (takeWhile py_isspace (rev ?t))) ?t"
    by (simp add: rev_drop)
  also have "?t = drop (length (takeWhile py_isspace s)) s"
    by (rule dropWhile_eq_drop)
  finally show ?thesis by blast
qed

lemma stripped_crossed:
  assumes "CHR ''{'' \<notin> set u" "CHR ''}'' \<notin> set w"
  obtains u' w' where "py_strip (u @ w) = u' @ w'" "CHR ''{'' \<notin> set u'" "CHR ''}'' \<notin> set w'"
proof -
  obtain m n where "py_strip (u @ w) = take n (drop m (u @ w))"
    using py_strip_window by blast
  then have "py_strip (u @ w)
      = take n (drop m u) @ take (n - length (drop m u)) (drop (m - length u) w)"
    by simp
  moreover have "CHR ''{'' \<notin> set (take n (drop m u))"
    using assms(1) by (meson in_set_dropD in_set_takeD)
  moreover have "CHR ''}'' \<notin> set (take (n - length (drop m u)) (drop (m - length u) w))"
    using assms(2) by (meson in_set_dropD in_set_takeD)
  ultimately show ?thesis by (rule that)
qed


subsection \<open>Extracting a task from a reply\<close>

text \<open>What \<open>_extract_task_from_response\<close> does with the text it decodes.\<close>

lemma extract_no_braces:
  "CHR ''{'' \<notin> set r \<or> CHR ''}'' \<notin> set r \<Longrightarrow> extract_task_from_response R r = Inr None"
  using py_find_absent [of r "CHR ''{''"] py_rfind_absent [of r "CHR ''}''"]
  by (auto simp: extract_task_from_response_def Let_def)

lemma extract_embedded:
  assumes "CHR ''{'' \<notin> set pre" "CHR ''}'' \<notin> set post"
  shows "extract_task_from_response R (pre @ (CHR ''{'' # mid @ ''}'') @ post) =
     (case (case json_loads R (CHR ''{'' # mid @ ''}'') of
              Inl e \<Rightarrow> Inl e
            | Inr task_data \<Rightarrow>
                (case all_fields_in required_fields task_data of
                   Inl e \<Rightarrow> Inl e
                 | Inr complete \<Rightarrow> if complete then build_task task_data else Inr None)) of
        Inl e \<Rightarrow> if class_of e = JSONDecodeError \<or> class_of e = KeyError then Inr None else Inl e
      | Inr r \<Rightarrow> Inr r)"
proof -
  let ?r = "pre @ (CHR ''{'' # mid @ ''}'') @ post"
  have first: "py_find ?r CHR ''{'' = int (length pre)"
    using py_find_first [OF assms(1), of "mid @ ''}'' @ post"] by simp
  have last: "py_rfind ?r CHR ''}'' = int (length pre) + int (length mid) + 1"
    using py_rfind_last [OF assms(2), of "pre @ CHR ''{'' # mid"] by simp
  have slice: "py_slice ?r (int (length pre)) b = CHR ''{'' # mid @ ''}''"
    if "b = int (length pre) + int (length mid) + 2" for b
    using that by (intro py_slice_middle) simp
  show ?thesis
    by (simp add: extract_task_from_response_def first last Let_def slice del: append.simps)
qed

lemma all_fields_in_dict:
  "all_fields_in fs (PDict kvs) = Inr (set fs \<subseteq> fst ` set kvs)"
  by (induction fs) auto

lemma build_task_dict:
  assumes "map_of kvs ''action'' = Some a" "map_of kvs ''category'' = Some c"
    and "map_of kvs ''description'' = Some d"
  shows "build_task (PDict kvs) =
     Inr (Some \<lparr>action = a, category = c,
       parameters = (case map_of kvs ''parameters'' of None \<Rightarrow> PDict [] | Some p \<Rightarrow> p),
       description = d\<rparr>)"
  using assms by (simp add: build_task_def)

lemma extract_dict_complete:
  assumes "CHR ''{'' \<notin> set pre" "CHR ''}'' \<notin> set post"
    and "json_loads R (CHR ''{'' # mid @ ''}'') = Inr (PDict kvs)"
    and "map_of kvs ''action'' = Some a" "map_of kvs ''category'' = Some c"
    and "map_of kvs ''parameters'' = Some p" "map_of kvs ''description'' = Some d"
  shows "extract_task_from_response R (pre @ (CHR ''{'' # mid @ ''}'') @ post) =
     Inr (Some \<lparr>action = a, category = c, parameters = p, description = d\<rparr>)"
proof -
  have "{''action'', ''category'', ''parameters'', ''description''} \<subseteq> fst ` set kvs"
    using assms(4-7) by (auto dest!: map_of_SomeD intro: rev_image_eqI)
  then show ?thesis
    unfolding extract_embedded [OF assms(1,2)] assms(3)
    by (simp add: all_fields_in_dict required_fields_def build_task_dict assms(4-7))
qed

lemma extract_dict_incomplete:
  assumes "CHR ''{'' \<notin> set pre" "CHR ''}'' \<notin> set post"
    and "json_loads R (CHR ''{'' # mid @ ''}'') = Inr (PDict kvs)"
    and "\<not> {''action'', ''category'', ''parameters'', ''description''} \<subseteq> fst ` set kvs"
  shows "extract_task_from_response R (pre @ (CHR ''{'' # mid @ ''}'') @ post) = Inr None"
  using assms(4)
  unfolding extract_embedded [OF assms(1,2)] assms(3)
  by (auto simp: all_fields_in_dict required_fields_def)

lemma extract_undecodable:
  assumes "CHR ''{'' \<notin> set pre" "CHR ''}'' \<notin> set post"
    and "json_loads R (CHR ''{'' # mid @ ''}'') = Inl e" "class_of e = JSONDecodeError"
  shows "extract_task_from_response R (pre @ (CHR ''{'' # mid @ ''}'') @ post) = Inr None"
  unfolding extract_embedded [OF assms(1,2)] assms(3)
  by (simp add: assms(4))

lemma extract_crossed:
  assumes "CHR ''{'' \<notin> set u" "CHR ''}'' \<notin> set w"
    and "json_loads R [] = Inl e" "class_of e = JSONDecodeError"
  shows "extract_task_from_response R (u @ w) = Inr None"
proof (cases "CHR ''{'' \<in> set w \<and> CHR ''}'' \<in> set u")
  case True
  have first: "int (length u) \<le> py_find (u @ w) CHR ''{''"
    using py_find_append [OF assms(1), of w] True py_find_absent [of w "CHR ''{''"]
      py_find_ge [of w "CHR ''{''"]
    by auto
  have last: "py_rfind (u @ w) CHR ''}'' < int (length u)"
    using py_rfind_append [OF assms(2), of u] py_rfind_lt [of u "CHR ''}''"] by simp
  have "py_slice (u @ w) (py_find (u @ w) CHR ''{'') (py_rfind (u @ w) CHR ''}'' + 1) = []"
    using first last py_rfind_ge [of "u @ w" "CHR ''}''"] by (intro py_slice_crossed) auto
  then show ?thesis
    by (simp add: extract_task_from_response_def Let_def assms(3,4))
next
  case False
  then have "CHR ''{'' \<notin> set (u @ w) \<or> CHR ''}'' \<notin> set (u @ w)"
    using assms(1,2) by auto
  then show ?thesis by (rule extract_no_braces)
qed

text \<open>What \<open>process_command\<close> makes of the outcome of the extraction.\<close>

lemma process_command_plain:
  assumes "has_api_key self" "process_with_openai R self voice_input = Inr (Plain s)"
  shows "process_command R self voice_input = Inr (Tuple2 apology None)"
  using assms by (simp add: process_command_def is_Exception_def)

lemma process_command_no_task:
  assumes "has_api_key self" "client self (user_message voice_input) = Inr reply"
    and "extract_task_from_response R (py_strip reply) = Inr None"
  shows "process_command R self voice_input = Inr (Tuple2 (py_strip reply) None)"
  using assms by (simp add: process_command_def process_with_openai_def)

lemma process_command_task:
  assumes "has_api_key self" "client self (user_message voice_input) = Inr reply"
    and "extract_task_from_response R (py_strip reply) = Inr (Some task)"
    and "description task = PStr d"
  shows "process_command R self voice_input = Inr (Tuple2 (''I'll '' @ py_lower d @ ''.'') (Some task))"
  using assms by (simp add: process_command_def process_with_openai_def)

lemma stripped_embedded:
  assumes "reply = pre @ (CHR ''{'' # mid @ ''}'') @ post"
    and "CHR ''{'' \<notin> set pre" "CHR ''}'' \<notin> set post"
  obtains pre' post' where "py_strip reply = pre' @ (CHR ''{'' # mid @ ''}'') @ post'"
    and "CHR ''{'' \<notin> set pre'" "CHR ''}'' \<notin> set post'"
proof
  show "py_strip reply = dropWhile py_isspace pre @ (CHR ''{'' # mid @ ''}'')
      @ rev (dropWhile py_isspace (rev post))"
    unfolding assms(1) by (rule py_strip_around) (simp_all add: py_isspace_def)
  show "CHR ''{'' \<notin> set (dropWhile py_isspace pre)"
    using assms(2) set_dropWhileD by fastforce
  show "CHR ''}'' \<notin> set (rev (dropWhile py_isspace (rev post)))"
    using assms(3) set_dropWhileD by fastforce
qed


lemma lower_increase_volume: "py_lower ''increase volume'' = ''increase volume''"
  by code_simp


text \<open>
  C8 (as amended). Let the service answer with \<open>reply\<close>. Either its first \<open>{\<close> stands
  before its last \<open>}\<close>, or every \<open>}\<close> stands before every \<open>{\<close> (one of them may be
  missing). The text that is decoded is the one from the first \<open>{\<close> to the last \<open>}\<close>
  inclusive, which is empty when the braces are crossed. If the reply has no \<open>{\<close> or no
  \<open>}\<close>, or that text fails to decode with a \<open>JSONDecodeError\<close>, there is no task and
  the stripped reply is the response. If that text decodes to a record, the extraction
  yields a Task exactly when the record holds all four fields \<open>action\<close>, \<open>category\<close>,
  \<open>parameters\<close> and \<open>description\<close>, with the record's values; without one of them
  there is no task and the stripped reply is the response. When a Task is extracted and
  its description is a string, the response is \<open>I'll \<close>, the description lower-cased,
  and a full stop, returned with the Task. Nothing is stated for a Task whose
  description is not a string, nor for a decoder that fails in another way.
\<close>

theorem task_extraction:
  assumes "has_api_key self" and "client self (user_message voice_input) = Inr reply"
  shows
   "((\<exists>pre mid post. reply = pre @ (CHR ''{'' # mid @ ''}'') @ post
           \<and> CHR ''{'' \<notin> set pre \<and> CHR ''}'' \<notin> set post)
      \<or> (\<exists>u w. reply = u @ w \<and> CHR ''{'' \<notin> set u \<and> CHR ''}'' \<notin> set w))
    \<and> (CHR ''{'' \<notin> set reply \<or> CHR ''}'' \<notin> set reply \<longrightarrow>
       process_command R self voice_input = Inr (Tuple2 (py_strip reply) None))
    \<and> (reply = u @ w \<and> CHR ''{'' \<notin> set u \<and> CHR ''}'' \<notin> set w
         \<and> json_loads R [] = Inl e' \<and> class_of e' = JSONDecodeError \<longrightarrow>
       process_command R self voice_input = Inr (Tuple2 (py_strip reply) None))
    \<and> (reply = pre @ (CHR ''{'' # mid @ ''}'') @ post
         \<and> CHR ''{'' \<notin> set pre \<and> CHR ''}'' \<notin> set post \<longrightarrow>
        (json_loads R (CHR ''{'' # mid @ ''}'') = Inl e \<and> class_of e = JSONDecodeError \<longrightarrow>
           process_command R self voice_input = Inr (Tuple2 (py_strip reply) None))
        \<and> (json_loads R (CHR ''{'' # mid @ ''}'') = Inr (PDict kvs) \<longrightarrow>
            (\<not> {''action'', ''category'', ''parameters'', ''description''} \<subseteq> fst ` set kvs \<longrightarrow>
               extract_task_from_response R (py_strip reply) = Inr None
               \<and> process_command R self voice_input = Inr (Tuple2 (py_strip reply) None))
            \<and> (map_of kvs ''action'' = Some a \<and> map_of kvs ''category'' = Some c
                 \<and> map_of kvs ''parameters'' = Some p \<and> map_of kvs ''description'' = Some d \<longrightarrow>
               extract_task_from_response R (py_strip reply)
                 = Inr (Some \<lparr>action = a, category = c, parameters = p, description = d\<rparr>)
               \<and> (\<forall>s. d = PStr s \<longrightarrow>
                    process_command R self voice_input
                      = Inr (Tuple2 (''I'll '' @ py_lower s @ ''.'')
                          (Some \<lparr>action = a, category = c, parameters = p, description = d\<rparr>))))))"
proof -
  have none: "process_command R self voice_input = Inr (Tuple2 (py_strip reply) None)"
    if "extract_task_from_response R (py_strip reply) = Inr None"
    using assms that by (rule process_command_no_task)
  have A: "process_command R self voice_input = Inr (Tuple2 (py_strip reply) None)"
    if "CHR ''{'' \<notin> set reply \<or> CHR ''}'' \<notin> set reply"
  proof -
    have "CHR ''{'' \<notin> set (py_strip reply) \<or> CHR ''}'' \<notin> set (py_strip reply)"
      using that set_py_strip [of reply] by blast
    then show ?thesis by (intro none extract_no_braces)
  qed
  have B: "(json_loads R (CHR ''{'' # mid @ ''}'') = Inl e \<and> class_of e = JSONDecodeError \<longrightarrow>
           process_command R self voice_input = Inr (Tuple2 (py_strip reply) None))
        \<and> (json_loads R (CHR ''{'' # mid @ ''}'') = Inr (PDict kvs) \<longrightarrow>
            (\<not> {''action'', ''category'', ''parameters'', ''description''} \<subseteq> fst ` set kvs \<longrightarrow>
               extract_task_from_response R (py_strip reply) = Inr None
               \<and> process_command R self voice_input = Inr (Tuple2 (py_strip reply) None))
            \<and> (map_of kvs ''action'' = Some a \<and> map_of kvs ''category'' = Some c
                 \<and> map_of kvs ''parameters'' = Some p \<and> map_of kvs ''description'' = Some d \<longrightarrow>
               extract_task_from_response R (py_strip reply)
                 = Inr (Some \<lparr>action = a, category = c, parameters = p, description = d\<rparr>)
               \<and> (\<forall>s. d = PStr s \<longrightarrow>
                    process_command R self voice_input
                      = Inr (Tuple2 (''I'll '' @ py_lower s @ ''.'')
                          (Some \<lparr>action = a, category = c, parameters = p, description = d\<rparr>)))))"
    if dec: "reply = pre @ (CHR ''{'' # mid @ ''}'') @ post"
      "CHR ''{'' \<notin> set pre" "CHR ''}'' \<notin> set post"
  proof -
    from dec obtain pre' post'
      where st: "py_strip reply = pre' @ (CHR ''{'' # mid @ ''}'') @ post'"
        and br: "CHR ''{'' \<notin> set pre'" "CHR ''}'' \<notin> set post'"
      by (rule stripped_embedded)
    have undecodable: "process_command R self voice_input = Inr (Tuple2 (py_strip reply) None)"
      if "json_loads R (CHR ''{'' # mid @ ''}'') = Inl e" "class_of e = JSONDecodeError"
      using extract_undecodable [OF br that] none by (simp add: st)
    have incomplete: "extract_task_from_response R (py_strip reply) = Inr None"
      if "json_loads R (CHR ''{'' # mid @ ''}'') = Inr (PDict kvs)"
        "\<not> {''action'', ''category'', ''parameters'', ''description''} \<subseteq> fst ` set kvs"
      using extract_dict_incomplete [OF br that] by (simp add: st)
    have complete: "extract_task_from_response R (py_strip reply)
        = Inr (Some \<lparr>action = a, category = c, parameters = p, description = d\<rparr>)"
      if "json_loads R (CHR ''{'' # mid @ ''}'') = Inr (PDict kvs)"
        "map_of kvs ''action'' = Some a" "map_of kvs ''category'' = Some c"
        "map_of kvs ''parameters'' = Some p" "map_of kvs ''description'' = Some d"
      using extract_dict_complete [OF br that] by (simp add: st)
    have ack: "process_command R self voice_input
        = Inr (Tuple2 (''I'll '' @ py_lower s @ ''.'')
            (Some \<lparr>action = a, category = c, parameters = p, description = d\<rparr>))"
      if "extract_task_from_response R (py_strip reply)
        = Inr (Some \<lparr>action = a, category = c, parameters = p, description = d\<rparr>)"
        "d = PStr s" for s
      using process_command_task [OF assms that(1), of s] that(2) by simp
    show ?thesis
      using undecodable incomplete complete ack none by blast
  qed
  have C: "process_command R self voice_input = Inr (Tuple2 (py_strip reply) None)"
    if "reply = u @ w" "CHR ''{'' \<notin> set u" "CHR ''}'' \<notin> set w"
      "json_loads R [] = Inl e'" "class_of e' = JSONDecodeError"
  proof -
    from that(2,3) obtain u' w' where "py_strip (u @ w) = u' @ w'"
        "CHR ''{'' \<notin> set u'" "CHR ''}'' \<notin> set w'"
      by (rule stripped_crossed)
    then have "extract_task_from_response R (py_strip reply) = Inr None"
      using extract_crossed [of u' w' R e'] that(1,4,5) by simp
    then show ?thesis by (rule none)
  qed
  have D: "(\<exists>pre mid post. reply = pre @ (CHR ''{'' # mid @ ''}'') @ post
           \<and> CHR ''{'' \<notin> set pre \<and> CHR ''}'' \<notin> set post)
      \<or> (\<exists>u w. reply = u @ w \<and> CHR ''{'' \<notin> set u \<and> CHR ''}'' \<notin> set w)"
  proof (cases "CHR ''{'' \<in> set reply")
    case True
    then obtain pre rest where first: "reply = pre @ CHR ''{'' # rest" "CHR ''{'' \<notin> set pre"
      by (meson split_list_first)
    show ?thesis
    proof (cases "CHR ''}'' \<in> set rest")
      case True
      then obtain mid post where "rest = mid @ CHR ''}'' # post" "CHR ''}'' \<notin> set post"
        by (meson split_list_last)
      with first have "reply = pre @ (CHR ''{'' # mid @ ''}'') @ post
          \<and> CHR ''{'' \<notin> set pre \<and> CHR ''}'' \<notin> set post"
        by simp
      then show ?thesis by blast
    next
      case False
      with first have "reply = pre @ (CHR ''{'' # rest) \<and> CHR ''{'' \<notin> set pre
          \<and> CHR ''}'' \<notin> set (CHR ''{'' # rest)"
        by simp
      then show ?thesis by blast
    qed
  next
    case False
    then have "reply = reply @ [] \<and> CHR ''{'' \<notin> set reply \<and> CHR ''}'' \<notin> set []"
      by simp
    then show ?thesis by blast
  qed
  show ?thesis
    using A B C D by blast
qed

text \<open>The reply of the spec's example, embedded in other text, and a reply without a task.\<close>

theorem task_extraction_witness:
  "process_command example_runtime (online_engine volume_reply) ''turn it up''
     = Inr (Tuple2 ''I'll increase volume.'' (Some volume_task))
   \<and> process_command example_runtime (online_engine ''Sorry, I cannot do that.'') ''fly''
     = Inr (Tuple2 ''Sorry, I cannot do that.'' None)"
  using task_extraction [where self = "online_engine volume_reply" and voice_input = "''turn it up''"
      and reply = volume_reply and R = example_runtime
      and pre = "'' Sure, turning it up. ''" and post = "'' Done. ''"
      and mid = \<open>''"action":"volume_up","category":"system","parameters":{},"description":"increase volume"''\<close>
      and kvs = "[(''action'', PStr ''volume_up''), (''category'', PStr ''system''),
                  (''parameters'', PDict []), (''description'', PStr ''increase volume'')]"
      and a = "PStr ''volume_up''" and c = "PStr ''system''" and p = "PDict []"
      and d = "PStr ''increase volume''"]
    task_extraction [where self = "online_engine ''Sorry, I cannot do that.''"
      and voice_input = "''fly''" and reply = "''Sorry, I cannot do that.''" and R = example_runtime]
  by (simp add: online_engine_def volume_reply_def example_runtime_def example_loads_def
      volume_task_def lower_increase_volume py_strip_def py_isspace_def)

text \<open>The claim as written fails twice. A reply whose record has all four fields and
  the description \<open>null\<close> yields a Task in the extraction, yet neither the acknowledgment
  nor the task comes back, because \<open>None.lower()\<close> raises. A reply whose text nests
  arrays deeper than the decoder's recursion limit makes \<open>json.loads\<close> raise
  \<open>RecursionError\<close>, which \<open>except (json.JSONDecodeError, KeyError)\<close> does not catch: the
  reply is not the response.\<close>

theorem task_extraction_counterexample:
  "extract_task_from_response example_runtime (py_strip null_reply)
     = Inr (Some \<lparr>action = PStr ''volume_up'', category = PStr ''system'',
          parameters = PDict [], description = PNone\<rparr>)
   \<and> process_command example_runtime (online_engine null_reply) ''turn it up''
     = Inr (Tuple2 ''I'm sorry, I encountered an error processing your command.'' None)
   \<and> process_command (example_runtime\<lparr>json_loads := depth_limited_loads\<rparr>)
       (online_engine (CHR ''{'' # nested_arrays @ ''}'')) ''turn it up''
     = Inr (Tuple2 ''I'm sorry, I encountered an error processing your command.'' None)"
proof -
  let ?R = "example_runtime\<lparr>json_loads := depth_limited_loads\<rparr>"
  let ?js = "CHR ''{'' # nested_arrays @ ''}''"
  have strip: "py_strip ?js = ?js"
    using py_strip_around [of ?js "[]" "[]"] by (simp add: py_isspace_def)
  have "extract_task_from_response ?R ?js
      = Inl (Raised OtherException
          ''maximum recursion depth exceeded while decoding a JSON array from a unicode string'')"
    using extract_embedded [of "[]" "[]" ?R nested_arrays]
    by (simp add: depth_limited_loads_def)
  then have "process_with_openai ?R (online_engine ?js) ''turn it up''
      = Inr (Plain (fallback_response ?R ''turn it up''))"
    by (simp add: process_with_openai_def online_engine_def strip is_Exception_def)
  then have deep: "process_command ?R (online_engine ?js) ''turn it up''
      = Inr (Tuple2 apology None)"
    by (intro process_command_plain) (simp_all add: online_engine_def)
  have null: "extract_task_from_response example_runtime (py_strip null_reply)
     = Inr (Some \<lparr>action = PStr ''volume_up'', category = PStr ''system'',
          parameters = PDict [], description = PNone\<rparr>)
   \<and> process_command example_runtime (online_engine null_reply) ''turn it up''
     = Inr (Tuple2 ''I'm sorry, I encountered an error processing your command.'' None)"
    by (simp add: process_command_def process_with_openai_def extract_task_from_response_def
      online_engine_def null_reply_def example_runtime_def example_loads_def py_strip_def
      py_isspace_def py_rfind_def py_slice_def Let_def required_fields_def build_task_def
      is_Exception_def apology_def)
  from deep null show ?thesis
    by (simp add: apology_def)
qed

subsection \<open>The fallback path\<close>

text \<open>
  C1 (the code at the failing input). \<open>process_command\<close> is documented and annotated to
  return the pair \<open>(response_text, task_object)\<close>. Without an API key it returns what
  \<open>_fallback_response\<close> returns: the canned response as a bare string, paired with
  nothing. The caller in main.py unpacks two values from it.
\<close>

theorem offline_returns_bare_string:
  "process_command R (self\<lparr>has_api_key := False\<rparr>) voice_input = Inr (Plain (fallback_response R voice_input))
   \<and> process_command example_runtime offline_engine ''hello there''
     = Inr (Plain ''Hello! I'm your AI assistant. I can help you control your computer, manage files, and automate tasks. What would you like me to do?'')"
proof -
  have "py_lower ''hello there'' = ''hello there''"
    by code_simp
  then show ?thesis
    by (simp add: process_command_def offline_engine_def fallback_response_def any_word_in_def)
qed

text \<open>
  C2 (the code at the failing input). When the call to the service raises an
  \<open>Exception\<close>, \<open>_process_with_openai\<close> returns the bare fallback string, the unpacking
  \<open>response, task = ...\<close> in \<open>process_command\<close> fails on it, and \<open>process_command\<close>
  returns the generic apology with no task, not the fallback response.
\<close>

theorem service_failure_gives_apology:
  assumes "has_api_key self" and "client self (user_message voice_input) = Inl e" and "is_Exception e"
  shows "process_command R self voice_input = Inr (Tuple2 apology None)"
proof -
  have "process_with_openai R self voice_input = Inr (Plain (fallback_response R voice_input))"
    using assms by (simp add: process_with_openai_def)
  with assms(1) show ?thesis by (rule process_command_plain)
qed

theorem service_failure_gives_apology_witness:
  "process_command example_runtime failing_engine ''hello there''
     = Inr (Tuple2 ''I'm sorry, I encountered an error processing your command.'' None)
   \<and> fallback_response example_runtime ''hello there''
     = ''Hello! I'm your AI assistant. I can help you control your computer, manage files, and automate tasks. What would you like me to do?''"
proof -
  have "py_lower ''hello there'' = ''hello there''"
    by code_simp
  then show ?thesis
    using service_failure_gives_apology [of failing_engine "''hello there''"
        "Raised OtherException ''Connection error.''" example_runtime]
    by (simp add: failing_engine_def is_Exception_def apology_def fallback_response_def
        any_word_in_def)
qed

subsection \<open>The canned responses\<close>

text \<open>
  X1. An input that contains \<open>shutdown\<close> in any mix of upper and lower case, with any text
  around it, gets the fixed shutdown guidance from \<open>_fallback_response\<close>.
\<close>

theorem fallback_shutdown:
  assumes "py_lower w = ''shutdown''"
  shows "fallback_response R (a @ w @ b) =
     ''I can help you shut down the computer. Please use the GUI or type 'shutdown' in the command line.''"
proof -
  have "py_lower (a @ w @ b) = py_lower a @ ''shutdown'' @ py_lower b"
    using assms by (simp add: py_lower_def)
  then have "py_contains ''shutdown'' (py_lower (a @ w @ b))"
    unfolding py_contains_iff by blast
  then show ?thesis
    by (simp add: fallback_response_def any_word_in_def)
qed

theorem fallback_shutdown_witness:
  "fallback_response example_runtime ''Please ShutDown the PC'' =
     ''I can help you shut down the computer. Please use the GUI or type 'shutdown' in the command line.''"
proof -
  have "py_lower ''ShutDown'' = ''shutdown''"
    by code_simp
  then show ?thesis
    using fallback_shutdown [of "''ShutDown''" example_runtime "''Please ''" "'' the PC''"]
    by simp
qed

text \<open>
  X2. An input that contains \<open>time\<close> (so also \<open>what time\<close>) and none of the shutdown,
  restart and volume keywords gets \<open>The current time is\<close>, the clock's text and a full stop.
\<close>

theorem fallback_time:
  assumes "py_contains ''time'' (py_lower voice_input)"
    and "\<not> any_word_in [''shutdown'', ''turn off'', ''power off'', ''restart'', ''reboot'',
        ''volume'', ''sound''] (py_lower voice_input)"
  shows "fallback_response R voice_input = ''The current time is '' @ strftime_now R @ ''.''"
  using assms by (simp add: fallback_response_def any_word_in_def)

theorem fallback_time_witness:
  "fallback_response example_runtime ''what time is it'' = ''The current time is 09:30 AM.''"
proof -
  have "py_lower ''what time is it'' = ''what time is it''"
    by code_simp
  then show ?thesis
    using fallback_time [of "''what time is it''" example_runtime]
    by (simp add: any_word_in_def example_runtime_def)
qed

text \<open>
  X3. The empty input is accepted and falls through to the default response, which quotes it.
\<close>

theorem fallback_empty_input:
  "fallback_response R [] =
     ''I heard you say ''  @ [CHR 0x27, CHR 0x27] @ ''. I'm here to help! You can ask me to control your computer, manage files, or help with various tasks.''"
  by (simp add: fallback_response_def any_word_in_def py_lower_def)

section \<open>Properties of core/task\_executor.py\<close>

subsection \<open>The shape of a dispatch\<close>

text \<open>A dispatch reaches \<open>_execute_with_handler\<close> exactly when the action is true, the
  category is the name of a registered handler and that handler is true. It then invokes
  at most one handler operation, and hands back what \<open>_execute_with_handler\<close> does.\<close>

lemma map_of_key: "map_of hs c = Some h \<Longrightarrow> c \<in> fst ` set hs"
  by (metis map_of_eq_None_iff option.distinct(1))

lemma execution_failed_Inl:
  "execution_failed R r = Inl e \<Longrightarrow> r = Inl e \<and> \<not> is_Exception e"
  by (auto simp: execution_failed_def split: sum.splits if_splits)

lemma execute_with_handler_Inl:
  "snd (execute_with_handler R h t) = Inl e \<Longrightarrow> \<not> is_Exception e"
  by (auto simp: execute_with_handler_def Let_def dest: execution_failed_Inl)

lemma execute_task_registered:
  assumes "py_truthy (action t)" "category t = PStr c" "c \<noteq> []"
    and "map_of hs c = Some h" "truthy h"
  shows "execute_task R hs t = execute_with_handler R h t"
proof -
  have valid: "TaskExecutor_validate_task hs t = Inr True"
    using assms by (simp add: TaskExecutor_validate_task_def dict_has_key_def map_of_key)
  have found: "dict_get hs (category t) = Inr (Some h)"
    using assms by (simp add: dict_get_def)
  have "snd (execute_task R hs t) = snd (execute_with_handler R h t)"
    using execute_with_handler_Inl [of R h t]
    by (cases "snd (execute_with_handler R h t)")
       (simp_all add: execute_task_def valid found assms(5) Let_def)
  moreover have "fst (execute_task R hs t) = fst (execute_with_handler R h t)"
    by (simp add: execute_task_def valid found assms(5) Let_def)
  ultimately show ?thesis by (simp add: prod_eq_iff)
qed

lemma wrap_call_attr:
  "(\<exists>s. (fst (result_text R (call_attr h n a)),
          execution_failed R (snd (result_text R (call_attr h n a)))) = ([], Inr s))
   \<or> (\<exists>f. map_of (attrs h) n = Some (Method f)
         \<and> (fst (result_text R (call_attr h n a)),
             execution_failed R (snd (result_text R (call_attr h n a))))
            = ([CallAttr n a], execution_failed R (map_sum id (text_of_result R) (f a))))"
  by (auto simp: call_attr_def result_text_def execution_failed_def
      is_Exception_def split: option.splits attr.splits)

lemma execute_with_handler_cases:
  "(fst (execute_with_handler R h t) = [] \<and> (\<exists>s. snd (execute_with_handler R h t) = Inr s))
   \<or> (\<exists>n a f. map_of (attrs h) n = Some (Method f)
         \<and> execute_with_handler R h t = ([CallAttr n a], execution_failed R (map_sum id (text_of_result R) (f a))))
   \<or> (\<exists>k. call h = Some k \<and> execute_with_handler R h t = ([CallSelf t], execution_failed R (map_sum id (text_of_result R) (k t))))"
proof (cases "action t")
  case (PStr a)
  consider (exact_kw) kvs where "hasattr h a" "py_truthy (parameters t)" "parameters t = PDict kvs"
    | (exact_bad) "hasattr h a" "py_truthy (parameters t)" "\<forall>kvs. parameters t \<noteq> PDict kvs"
    | (exact_no) "hasattr h a" "\<not> py_truthy (parameters t)"
    | (exec) "\<not> hasattr h a" "hasattr h ''execute''"
    | (self) k where "\<not> hasattr h a" "\<not> hasattr h ''execute''" "call h = Some k"
    | (none) "\<not> hasattr h a" "\<not> hasattr h ''execute''" "call h = None"
    by (cases "call h"; cases "parameters t") auto
  then show ?thesis
  proof cases
    case exact_kw
    then show ?thesis
      using wrap_call_attr [of R h a "Kwargs kvs"]
      by (auto simp: execute_with_handler_def PStr Let_def)
  next
    case exact_bad
    then show ?thesis
      by (cases "parameters t")
        (auto simp: execute_with_handler_def PStr Let_def result_text_def execution_failed_def
          is_Exception_def)
  next
    case exact_no
    then show ?thesis
      using wrap_call_attr [of R h a NoArgs]
      by (auto simp: execute_with_handler_def PStr Let_def)
  next
    case exec
    then show ?thesis
      using wrap_call_attr [of R h "''execute''" "Positional t"]
      by (auto simp: execute_with_handler_def PStr Let_def)
  next
    case self
    then show ?thesis
      by (auto simp: execute_with_handler_def PStr Let_def result_text_def)
  next
    case none
    then show ?thesis
      by (auto simp: execute_with_handler_def PStr Let_def execution_failed_def)
  qed
qed (auto simp: execute_with_handler_def Let_def execution_failed_def is_Exception_def)

lemma execute_task_unreached:
  assumes "\<not> (\<exists>c h. py_truthy (action t) \<and> category t = PStr c \<and> c \<noteq> []
      \<and> map_of hs c = Some h \<and> truthy h)"
  shows "fst (execute_task R hs t) = [] \<and> (\<exists>s. snd (execute_task R hs t) = Inr s)"
proof (cases "category t")
  case (PStr c)
  show ?thesis
  proof (cases "map_of hs c")
    case None
    then have "c \<notin> fst ` set hs" by (simp add: map_of_eq_None_iff)
    then show ?thesis
      by (simp add: execute_task_def TaskExecutor_validate_task_def dict_has_key_def PStr Let_def)
  next
    case (Some h)
    then have "c \<in> fst ` set hs" by (rule map_of_key)
    then show ?thesis
      using assms Some
      by (auto simp: execute_task_def TaskExecutor_validate_task_def dict_has_key_def
          dict_get_def PStr Let_def)
  qed
qed (auto simp: execute_task_def TaskExecutor_validate_task_def dict_has_key_def
      dict_get_def Let_def is_Exception_def)

lemma execute_task_cases:
  "(fst (execute_task R hs t) = [] \<and> (\<exists>s. snd (execute_task R hs t) = Inr s))
   \<or> (\<exists>c h n a f. category t = PStr c \<and> map_of hs c = Some h
         \<and> map_of (attrs h) n = Some (Method f)
         \<and> execute_task R hs t = ([CallAttr n a], execution_failed R (map_sum id (text_of_result R) (f a))))
   \<or> (\<exists>c h k. category t = PStr c \<and> map_of hs c = Some h \<and> call h = Some k
         \<and> execute_task R hs t = ([CallSelf t], execution_failed R (map_sum id (text_of_result R) (k t))))"
proof (cases "\<exists>c h. py_truthy (action t) \<and> category t = PStr c \<and> c \<noteq> []
    \<and> map_of hs c = Some h \<and> truthy h")
  case True
  then obtain c h where v: "py_truthy (action t)" "category t = PStr c" "c \<noteq> []"
      "map_of hs c = Some h" "truthy h"
    by blast
  show ?thesis
    using execute_with_handler_cases [of R h t] v(2,4)
    unfolding execute_task_registered [OF v, of R]
    by blast
next
  case False
  then show ?thesis
    using execute_task_unreached [of t hs R] by blast
qed


subsection \<open>Rejected tasks\<close>

text \<open>
  C3 (as amended). For every task whose category is not the name of a registered
  handler, \<open>execute_task\<close> invokes no handler operation and does not raise. It returns
  \<open>Invalid task: \<close> followed by the action; only when the action is true and the
  category is a true unhashable value (a non-empty list or dictionary) does the lookup
  raise \<open>TypeError\<close>, which comes back as \<open>Error executing task ...\<close>. The text
  \<open>No handler registered for category: ...\<close> is not what such a task gets.
\<close>

theorem unregistered_category_rejected:
  assumes "\<forall>s. category t = PStr s \<longrightarrow> s \<notin> fst ` set hs"
  shows "execute_task R hs t =
     ([], Inr (if py_truthy (action t) \<and> py_truthy (category t) \<and> \<not> py_hashable (category t)
               then ''Error executing task '' @ py_str R (action t) @ '': ''
                      @ exn_str R (Unhashable (category t))
               else ''Invalid task: '' @ py_str R (action t)))"
  using assms
  by (cases "category t")
    (auto simp: execute_task_def TaskExecutor_validate_task_def dict_has_key_def Let_def
      is_Exception_def)

theorem unregistered_category_rejected_witness:
  "execute_task example_runtime [(''system'', system_handler)]
      (volume_task\<lparr>action := PStr ''scroll_page'', category := PStr ''web''\<rparr>)
     = ([], Inr ''Invalid task: scroll_page'')
   \<and> execute_task example_runtime [(''system'', system_handler)]
      (volume_task\<lparr>category := PList [PStr ''system'']\<rparr>)
     = ([], Inr (''Error executing task volume_up: unhashable type: 'list'' @ [CHR 0x27]))"
  using unregistered_category_rejected [of
      "volume_task\<lparr>action := PStr ''scroll_page'', category := PStr ''web''\<rparr>"
      "[(''system'', system_handler)]" example_runtime]
    unregistered_category_rejected [of "volume_task\<lparr>category := PList [PStr ''system'']\<rparr>"
      "[(''system'', system_handler)]" example_runtime]
  by (simp add: volume_task_def py_str_def exn_str_def example_runtime_def)

text \<open>The claim as written fails: with only \<open>system\<close> registered, a \<open>file\<close> task gets
  \<open>Invalid task: create_file\<close>, which does not name the category.\<close>

theorem unregistered_category_counterexample:
  "map_of [(''system'', system_handler)] ''file'' = None
   \<and> execute_task example_runtime [(''system'', system_handler)]
        (volume_task\<lparr>action := PStr ''create_file'', category := PStr ''file''\<rparr>)
       = ([], Inr ''Invalid task: create_file'')
   \<and> snd (execute_task example_runtime [(''system'', system_handler)]
        (volume_task\<lparr>action := PStr ''create_file'', category := PStr ''file''\<rparr>))
       \<noteq> Inr ''No handler registered for category: file''"
  by (simp add: execute_task_def TaskExecutor_validate_task_def dict_has_key_def Let_def
      volume_task_def py_str_def)

text \<open>
  X4. The text \<open>No handler registered for category: ...\<close> is what a task gets whose
  category names a registered handler that is false in Python's sense (a handler
  registered as \<open>None\<close>, or an object whose \<open>__bool__\<close> or \<open>__len__\<close> makes it false).
\<close>

theorem falsy_handler_unregistered_text:
  assumes "py_truthy (action t)" and "category t = PStr c" and "c \<noteq> []"
    and "map_of hs c = Some h" and "\<not> truthy h"
  shows "execute_task R hs t = ([], Inr (''No handler registered for category: '' @ c))"
  using assms
  by (simp add: execute_task_def TaskExecutor_validate_task_def dict_has_key_def dict_get_def
      map_of_key py_str_def)

theorem falsy_handler_unregistered_text_witness:
  "execute_task example_runtime [(''system'', system_handler\<lparr>truthy := False\<rparr>)] volume_task
     = ([], Inr ''No handler registered for category: system'')"
  using falsy_handler_unregistered_text [of volume_task "''system''"
      "[(''system'', system_handler\<lparr>truthy := False\<rparr>)]" "system_handler\<lparr>truthy := False\<rparr>"
      example_runtime]
  by (simp add: volume_task_def)

text \<open>
  C4 (as amended). For every task whose action or category is empty (false in Python's
  sense: the empty string, \<open>None\<close>, ...), \<open>execute_task\<close> returns \<open>Invalid task: \<close>
  followed by the action, does not raise and invokes no handler operation. The
  description is not looked at.
\<close>

theorem empty_action_or_category_rejected:
  assumes "\<not> py_truthy (action t) \<or> \<not> py_truthy (category t)"
  shows "execute_task R hs t = ([], Inr (''Invalid task: '' @ py_str R (action t)))"
  using assms
  by (auto simp: execute_task_def TaskExecutor_validate_task_def Let_def)

theorem empty_action_or_category_rejected_witness:
  "execute_task example_runtime [(''system'', system_handler)] (volume_task\<lparr>action := PStr []\<rparr>)
     = ([], Inr ''Invalid task: '')
   \<and> execute_task example_runtime [(''system'', system_handler)] (volume_task\<lparr>category := PStr []\<rparr>)
     = ([], Inr ''Invalid task: volume_up'')
   \<and> execute_task example_runtime [(''system'', system_handler)] (volume_task\<lparr>action := PNone\<rparr>)
     = ([], Inr ''Invalid task: None'')"
  using empty_action_or_category_rejected [of "volume_task\<lparr>action := PStr []\<rparr>"
      example_runtime "[(''system'', system_handler)]"]
    empty_action_or_category_rejected [of "volume_task\<lparr>category := PStr []\<rparr>"
      example_runtime "[(''system'', system_handler)]"]
    empty_action_or_category_rejected [of "volume_task\<lparr>action := PNone\<rparr>"
      example_runtime "[(''system'', system_handler)]"]
  by (simp add: volume_task_def py_str_def example_runtime_def)

text \<open>The claim as written fails for the description: a task with an empty description
  and a registered category is dispatched, and the handler operation runs.\<close>

theorem empty_description_counterexample:
  "description (volume_task\<lparr>description := PStr []\<rparr>) = PStr []
   \<and> execute_task example_runtime [(''system'', system_handler)]
        (volume_task\<lparr>description := PStr []\<rparr>)
       = ([CallAttr ''volume_up'' NoArgs], Inr ''Volume increased'')"
  by (simp add: execute_task_def TaskExecutor_validate_task_def dict_has_key_def dict_get_def
      Let_def volume_task_def system_handler_def execute_with_handler_def hasattr_def
      call_attr_def result_text_def text_of_result_def execution_failed_def py_str_def)

subsection \<open>Resolving the operation\<close>

text \<open>
  In the theorems of this subsection the task is valid for the dispatcher and its
  handler is registered: the action is a non-empty string \<open>a\<close>, the category a
  non-empty string \<open>c\<close>, and \<open>c\<close> names the handler \<open>h\<close>, which is true.
\<close>

text \<open>
  C6 (as amended). Dispatch resolves the operation by this precedence, stopping at the
  first match: (a) an attribute of the handler whose name equals \<open>task.action\<close>: a
  method is invoked with \<open>task.parameters\<close> expanded as named arguments, or with no
  arguments when the parameters are empty, while an attribute that is not callable (or
  parameters that are not a mapping) gives an \<open>Execution failed\<close> string with nothing
  invoked; (b) otherwise an attribute named \<open>execute\<close>, invoked with the whole task
  (\<open>Execution failed\<close> when it is not callable); (c) otherwise, if the handler is
  itself callable, the handler applied to the task; (d) otherwise the failure string
  naming the handler's type and the unsupported action.
\<close>

theorem dispatch_precedence:
  assumes "action t = PStr a" "a \<noteq> []" "category t = PStr c" "c \<noteq> []"
    and "map_of hs c = Some h" "truthy h"
  shows "(\<forall>f kvs. map_of (attrs h) a = Some (Method f) \<and> parameters t = PDict kvs \<longrightarrow>
            fst (execute_task R hs t) = [CallAttr a (if kvs = [] then NoArgs else Kwargs kvs)])
     \<and> (\<forall>f. map_of (attrs h) a = Some (Method f) \<and> \<not> py_truthy (parameters t) \<longrightarrow>
            fst (execute_task R hs t) = [CallAttr a NoArgs])
     \<and> (map_of (attrs h) a \<noteq> None \<and> py_truthy (parameters t)
          \<and> (\<forall>kvs. parameters t \<noteq> PDict kvs) \<longrightarrow>
            (\<exists>msg. execute_task R hs t = ([], Inr (''Execution failed: '' @ msg))))
     \<and> (\<forall>ty. map_of (attrs h) a = Some (Data ty) \<longrightarrow>
            (\<exists>msg. execute_task R hs t = ([], Inr (''Execution failed: '' @ msg))))
     \<and> (\<forall>g. map_of (attrs h) a = None \<and> map_of (attrs h) ''execute'' = Some (Method g) \<longrightarrow>
            fst (execute_task R hs t) = [CallAttr ''execute'' (Positional t)])
     \<and> (\<forall>ty. map_of (attrs h) a = None \<and> map_of (attrs h) ''execute'' = Some (Data ty) \<longrightarrow>
            (\<exists>msg. execute_task R hs t = ([], Inr (''Execution failed: '' @ msg))))
     \<and> (\<forall>k. map_of (attrs h) a = None \<and> map_of (attrs h) ''execute'' = None \<and> call h = Some k
            \<longrightarrow> fst (execute_task R hs t) = [CallSelf t])
     \<and> (map_of (attrs h) a = None \<and> map_of (attrs h) ''execute'' = None \<and> call h = None \<longrightarrow>
            execute_task R hs t =
              ([], Inr (''Handler '' @ type_name h @ '' doesn't support action: '' @ a)))"
proof -
  have run: "execute_task R hs t = execute_with_handler R h t"
    using assms by (intro execute_task_registered) auto
  show ?thesis
    unfolding run
    by (cases "parameters t")
      (auto simp: execute_with_handler_def assms(1) hasattr_def Let_def result_text_def
        call_attr_def execution_failed_def is_Exception_def split: attr.splits)
qed

theorem dispatch_precedence_witness:
  "fst (execute_task example_runtime [(''system'', system_handler)] volume_task)
      = [CallAttr ''volume_up'' NoArgs]
   \<and> fst (execute_task example_runtime [(''plugin'', plugin_handler)]
        (volume_task\<lparr>action := PStr ''run'', category := PStr ''plugin''\<rparr>))
      = [CallAttr ''execute''
          (Positional (volume_task\<lparr>action := PStr ''run'', category := PStr ''plugin''\<rparr>))]
   \<and> fst (execute_task example_runtime [(''system'', function_handler)] volume_task)
      = [CallSelf volume_task]
   \<and> execute_task example_runtime [(''ai'', engine_handler)]
        (volume_task\<lparr>action := PStr ''chat'', category := PStr ''ai''\<rparr>)
      = ([], Inr ''Handler AIEngine doesn't support action: chat'')"
  using dispatch_precedence [where t = volume_task and a = "''volume_up''" and c = "''system''"
      and hs = "[(''system'', system_handler)]" and h = system_handler and R = example_runtime]
    dispatch_precedence [where
      t = "volume_task\<lparr>action := PStr ''run'', category := PStr ''plugin''\<rparr>"
      and a = "''run''" and c = "''plugin''"
      and hs = "[(''plugin'', plugin_handler)]" and h = plugin_handler and R = example_runtime]
    dispatch_precedence [where t = volume_task and a = "''volume_up''" and c = "''system''"
      and hs = "[(''system'', function_handler)]" and h = function_handler
      and R = example_runtime]
    dispatch_precedence [where
      t = "volume_task\<lparr>action := PStr ''chat'', category := PStr ''ai''\<rparr>"
      and a = "''chat''" and c = "''ai''"
      and hs = "[(''ai'', engine_handler)]" and h = engine_handler and R = example_runtime]
  by (simp add: volume_task_def system_handler_def plugin_handler_def function_handler_def
      engine_handler_def)

text \<open>The claim as written speaks of a handler method named \<open>task.action\<close> and falls
  to (b), (c), (d) otherwise. \<open>AIEngine\<close>, registered for \<open>ai\<close>, has the data attribute
  \<open>command_patterns\<close>, no \<open>execute\<close>, and is not callable: the claim gives (d), the code
  answers \<open>Execution failed\<close>. A handler with a data attribute \<open>status\<close> and an
  \<open>execute\<close> method: the claim gives (b), the code invokes nothing.\<close>

theorem dispatch_precedence_counterexample:
  "(\<forall>f. map_of (attrs engine_handler) ''command_patterns'' \<noteq> Some (Method f))
   \<and> map_of (attrs engine_handler) ''execute'' = None
   \<and> call engine_handler = None
   \<and> execute_task example_runtime [(''ai'', engine_handler)]
        (volume_task\<lparr>action := PStr ''command_patterns'', category := PStr ''ai''\<rparr>)
      = ([], Inr ''Execution failed: 'dict' object is not callable'')
   \<and> (\<forall>f. map_of (attrs plugin_handler) ''status'' \<noteq> Some (Method f))
   \<and> map_of (attrs plugin_handler) ''execute'' \<noteq> None
   \<and> execute_task example_runtime [(''plugin'', plugin_handler)]
        (volume_task\<lparr>action := PStr ''status'', category := PStr ''plugin''\<rparr>)
      = ([], Inr ''Execution failed: 'str' object is not callable'')"
  by (simp add: execute_task_def TaskExecutor_validate_task_def dict_has_key_def dict_get_def
      Let_def volume_task_def engine_handler_def plugin_handler_def execute_with_handler_def
      hasattr_def call_attr_def result_text_def execution_failed_def is_Exception_def
      exn_str_def example_runtime_def)

text \<open>
  C10. If the handler has any attribute, callable or not, whose name equals
  \<open>task.action\<close>, dispatch takes the exact-name branch: the only operation it can
  invoke is that attribute, with keyword or no arguments, never \<open>execute(task)\<close> and
  never the handler itself; with dictionary parameters and a method, the result is that
  of the method; and when the attribute is not callable, nothing is invoked and the
  result is an \<open>Execution failed\<close> string, not a raised exception.
\<close>

theorem exact_name_attribute_wins:
  assumes "action t = PStr a" "a \<noteq> []" "category t = PStr c" "c \<noteq> []"
    and "map_of hs c = Some h" "truthy h"
    and "map_of (attrs h) a = Some x"
  shows "CallSelf t \<notin> set (fst (execute_task R hs t))
     \<and> CallAttr ''execute'' (Positional t) \<notin> set (fst (execute_task R hs t))
     \<and> (\<forall>ev \<in> set (fst (execute_task R hs t)). \<exists>given. ev = CallAttr a given)
     \<and> (\<forall>f kvs. x = Method f \<and> parameters t = PDict kvs \<longrightarrow>
           execute_task R hs t =
             ([CallAttr a (if kvs = [] then NoArgs else Kwargs kvs)],
              execution_failed R (map_sum id (text_of_result R)
                (f (if kvs = [] then NoArgs else Kwargs kvs)))))
     \<and> (\<forall>ty. x = Data ty \<longrightarrow>
           execute_task R hs t =
             ([], Inr (''Execution failed: ''
                @ exn_str R (if py_truthy (parameters t) \<and> (\<forall>kvs. parameters t \<noteq> PDict kvs)
                             then KwargsNotMapping (parameters t) else NotCallable ty))))"
proof -
  have run: "execute_task R hs t = execute_with_handler R h t"
    using assms by (intro execute_task_registered) auto
  have has: "hasattr h a"
    using assms(7) by (simp add: hasattr_def)
  show ?thesis
    unfolding run
    using assms(7)
    by (cases x; cases "parameters t")
      (auto simp: execute_with_handler_def assms(1) has Let_def result_text_def call_attr_def
        execution_failed_def is_Exception_def)
qed

theorem exact_name_attribute_wins_witness:
  "execute_task example_runtime [(''ai'', engine_handler)]
        (volume_task\<lparr>action := PStr ''command_patterns'', category := PStr ''ai''\<rparr>)
      = ([], Inr ''Execution failed: 'dict' object is not callable'')
   \<and> execute_task example_runtime [(''system'', system_handler)] volume_task
      = ([CallAttr ''volume_up'' NoArgs], Inr ''Volume increased'')"
  using exact_name_attribute_wins [where
      t = "volume_task\<lparr>action := PStr ''command_patterns'', category := PStr ''ai''\<rparr>"
      and a = "''command_patterns''" and c = "''ai''" and hs = "[(''ai'', engine_handler)]"
      and h = engine_handler and x = "Data ''dict''" and R = example_runtime]
    exact_name_attribute_wins [where t = volume_task and a = "''volume_up''" and c = "''system''"
      and hs = "[(''system'', system_handler)]" and h = system_handler
      and x = "Method (\<lambda>a. case a of
              NoArgs \<Rightarrow> Inr (PStr ''Volume increased'')
            | _ \<Rightarrow> Inl (Raised TypeError ''volume_up() got an unexpected argument''))"
      and R = example_runtime]
  by (simp add: volume_task_def engine_handler_def system_handler_def execution_failed_def
      text_of_result_def py_str_def exn_str_def example_runtime_def)

subsection \<open>Exceptions and results\<close>

text \<open>
  C7 (as amended). \<open>execute_task\<close> never propagates an exception that is an instance
  of \<open>Exception\<close>. The only exception that reaches its caller is one outside
  \<open>Exception\<close> (\<open>SystemExit\<close>, \<open>KeyboardInterrupt\<close>) raised by the one handler operation
  it invoked. What the invoked operation does decides the result: a true return value
  is shown with \<open>str\<close>, a false one (empty or \<open>None\<close>) gives
  \<open>Task completed successfully\<close>, an \<open>Exception\<close> gives \<open>Execution failed: \<close> and its
  text. When no handler operation raises outside \<open>Exception\<close>, a string comes back.
\<close>

theorem execute_task_catches_Exception:
  "(\<forall>e. snd (execute_task R hs t) = Inl e \<longrightarrow>
       \<not> is_Exception e
       \<and> (\<exists>c h. category t = PStr c \<and> map_of hs c = Some h
            \<and> ((\<exists>n a f. fst (execute_task R hs t) = [CallAttr n a]
                   \<and> map_of (attrs h) n = Some (Method f) \<and> f a = Inl e)
               \<or> (\<exists>k. fst (execute_task R hs t) = [CallSelf t]
                   \<and> call h = Some k \<and> k t = Inl e))))
   \<and> (\<forall>c h n a f. category t = PStr c \<and> map_of hs c = Some h
          \<and> fst (execute_task R hs t) = [CallAttr n a]
          \<and> map_of (attrs h) n = Some (Method f) \<longrightarrow>
        snd (execute_task R hs t) =
          (case f a of
             Inr v \<Rightarrow> Inr (if py_truthy v then py_str R v else ''Task completed successfully'')
           | Inl e \<Rightarrow>
               if is_Exception e then Inr (''Execution failed: '' @ exn_str R e) else Inl e))
   \<and> (\<forall>c h k. category t = PStr c \<and> map_of hs c = Some h
          \<and> fst (execute_task R hs t) = [CallSelf t] \<and> call h = Some k \<longrightarrow>
        snd (execute_task R hs t) =
          (case k t of
             Inr v \<Rightarrow> Inr (if py_truthy v then py_str R v else ''Task completed successfully'')
           | Inl e \<Rightarrow>
               if is_Exception e then Inr (''Execution failed: '' @ exn_str R e) else Inl e))
   \<and> ((\<forall>c h n f a e. map_of hs c = Some h \<and> map_of (attrs h) n = Some (Method f)
            \<and> f a = Inl e \<longrightarrow> is_Exception e)
        \<and> (\<forall>c h k e. map_of hs c = Some h \<and> call h = Some k \<and> k t = Inl e
            \<longrightarrow> is_Exception e)
        \<longrightarrow> (\<exists>s. snd (execute_task R hs t) = Inr s))"
proof -
  let ?conv = "\<lambda>r. execution_failed R (map_sum id (text_of_result R) r)"
  have conv: "?conv r =
      (case r of
         Inr v \<Rightarrow> Inr (if py_truthy v then py_str R v else ''Task completed successfully'')
       | Inl e \<Rightarrow> if is_Exception e then Inr (''Execution failed: '' @ exn_str R e) else Inl e)"
    for r
    by (cases r) (simp_all add: execution_failed_def text_of_result_def)
  consider (quiet) s where "execute_task R hs t = ([], Inr s)"
    | (attr) c h n a f where "category t = PStr c" "map_of hs c = Some h"
        "map_of (attrs h) n = Some (Method f)"
        "execute_task R hs t = ([CallAttr n a], ?conv (f a))"
    | (self) c h k where "category t = PStr c" "map_of hs c = Some h" "call h = Some k"
        "execute_task R hs t = ([CallSelf t], ?conv (k t))"
    using execute_task_cases [of R hs t] by (auto simp: prod_eq_iff)
  then show ?thesis
  proof cases
    case quiet
    then show ?thesis by simp
  next
    case attr
    have "\<exists>s. ?conv (f a) = Inr s"
      if "\<forall>c h n f a e. map_of hs c = Some h \<and> map_of (attrs h) n = Some (Method f)
            \<and> f a = Inl e \<longrightarrow> is_Exception e"
      using that attr(2,3) unfolding conv by (cases "f a") auto
    moreover have "\<not> is_Exception e \<and> f a = Inl e" if "?conv (f a) = Inl e" for e
      using that unfolding conv by (cases "f a") (auto split: if_splits)
    ultimately show ?thesis
      using attr by (auto simp: conv)
  next
    case self
    have "\<exists>s. ?conv (k t) = Inr s"
      if "\<forall>c h k e. map_of hs c = Some h \<and> call h = Some k \<and> k t = Inl e \<longrightarrow> is_Exception e"
      using that self(2,3) unfolding conv by (cases "k t") auto
    moreover have "\<not> is_Exception e \<and> k t = Inl e" if "?conv (k t) = Inl e" for e
      using that unfolding conv by (cases "k t") (auto split: if_splits)
    ultimately show ?thesis
      using self by (auto simp: conv)
  qed
qed


theorem execute_task_catches_Exception_witness:
  "snd (execute_task example_runtime [(''system'', exiting_handler)]
         (volume_task\<lparr>action := PStr ''crash''\<rparr>)) = Inr ''Execution failed: boom''
   \<and> snd (execute_task example_runtime [(''system'', system_handler)]
         (volume_task\<lparr>action := PStr ''get_system_info''\<rparr>)) = Inr ''Task completed successfully''
   \<and> snd (execute_task example_runtime [(''system'', function_handler)] volume_task)
       = Inr ''Task completed successfully''
   \<and> snd (execute_task example_runtime [(''system'', exiting_handler)]
         (volume_task\<lparr>action := PStr ''quit''\<rparr>)) = Inl (Raised NonException ''0'')
   \<and> \<not> is_Exception (Raised NonException ''0'')"
  using execute_task_catches_Exception [of example_runtime "[(''system'', exiting_handler)]"
      "volume_task\<lparr>action := PStr ''crash''\<rparr>"]
    execute_task_catches_Exception [of example_runtime "[(''system'', system_handler)]"
      "volume_task\<lparr>action := PStr ''get_system_info''\<rparr>"]
    execute_task_catches_Exception [of example_runtime "[(''system'', function_handler)]"
      volume_task]
    execute_task_catches_Exception [of example_runtime "[(''system'', exiting_handler)]"
      "volume_task\<lparr>action := PStr ''quit''\<rparr>"]
  by (simp add: execute_task_def TaskExecutor_validate_task_def dict_has_key_def dict_get_def
      Let_def volume_task_def exiting_handler_def system_handler_def function_handler_def
      execute_with_handler_def hasattr_def call_attr_def result_text_def text_of_result_def
      execution_failed_def is_Exception_def exn_str_def)

text \<open>The claim as written fails: a handler operation that calls \<open>sys.exit\<close> raises
  \<open>SystemExit\<close>, which \<open>except Exception\<close> does not catch, in \<open>_execute_with_handler\<close>
  and in \<open>execute_task\<close> alike.\<close>

theorem execute_task_propagates_counterexample:
  "execute_task example_runtime [(''system'', exiting_handler)]
      (volume_task\<lparr>action := PStr ''quit''\<rparr>)
     = ([CallAttr ''quit'' NoArgs], Inl (Raised NonException ''0''))"
  by (simp add: execute_task_def TaskExecutor_validate_task_def dict_has_key_def dict_get_def
      Let_def volume_task_def exiting_handler_def execute_with_handler_def hasattr_def
      call_attr_def result_text_def execution_failed_def is_Exception_def)

subsection \<open>Enumerating the available tasks\<close>

text \<open>\<open>register_handler\<close> keeps the keys of the registry distinct, as a dictionary does.\<close>

lemma register_handler_keys:
  "fst ` set (register_handler hs c h) = insert c (fst ` set hs)"
  by (induction hs c h rule: register_handler.induct) auto

lemma register_handler_distinct:
  "distinct (map fst hs) \<Longrightarrow> distinct (map fst (register_handler hs c h))"
  by (induction hs c h rule: register_handler.induct) (auto simp: register_handler_keys)

lemma register_handler_lookup:
  "map_of (register_handler hs c h) = (map_of hs)(c \<mapsto> h)"
  by (induction hs c h rule: register_handler.induct) (auto simp: fun_eq_iff)

lemma available_tasks_loop_frame:
  "available_tasks_loop hs acc = Inr m \<Longrightarrow> c \<notin> fst ` set hs \<Longrightarrow> m c = acc c"
  by (induction hs arbitrary: acc) (auto split: sum.splits)

lemma available_tasks_loop_entry:
  "available_tasks_loop hs acc = Inr m \<Longrightarrow> distinct (map fst hs) \<Longrightarrow> (c, h) \<in> set hs
     \<Longrightarrow> \<exists>v. available_actions h = Inr v \<and> m c = Some v"
proof (induction hs arbitrary: acc)
  case Nil
  then show ?case by simp
next
  case (Cons p hs)
  obtain c' h' where p: "p = (c', h')" by (cases p)
  from Cons.prems(1) obtain w where w: "available_actions h' = Inr w"
      and rest: "available_tasks_loop hs (acc(c' \<mapsto> w)) = Inr m"
    by (auto simp: p split: sum.splits)
  show ?case
  proof (cases "(c, h) = (c', h')")
    case True
    then have "c \<notin> fst ` set hs" using Cons.prems(2) by (simp add: p)
    then have "m c = Some w"
      using available_tasks_loop_frame [OF rest] True by simp
    then show ?thesis using True w by simp
  next
    case False
    then have "(c, h) \<in> set hs" using Cons.prems(3) by (auto simp: p)
    moreover have "distinct (map fst hs)" using Cons.prems(2) by simp
    ultimately show ?thesis using Cons.IH [OF rest] by blast
  qed
qed

lemma available_tasks_loop_returns:
  "\<forall>(c, h) \<in> set hs. \<exists>v. available_actions h = Inr v
     \<Longrightarrow> \<exists>m. available_tasks_loop hs acc = Inr m"
  by (induction hs arbitrary: acc) (auto split: sum.splits)

lemma available_actions_declared:
  "map_of (attrs h) ''get_available_actions'' = Some (Method f)
     \<Longrightarrow> available_actions h = f NoArgs"
  by (simp add: available_actions_def hasattr_def call_attr_def)

lemma available_actions_returns:
  assumes "\<forall>x. map_of (attrs h) ''get_available_actions'' = Some x
             \<longrightarrow> (\<exists>g w. x = Method g \<and> g NoArgs = Inr w)"
  shows "\<exists>v. available_actions h = Inr v"
proof (cases "map_of (attrs h) ''get_available_actions''")
  case None
  then show ?thesis by (simp add: available_actions_def hasattr_def)
next
  case (Some x)
  with assms obtain g w where "x = Method g" "g NoArgs = Inr w" by blast
  with Some show ?thesis by (simp add: available_actions_declared)
qed

text \<open>
  X5. \<open>register_handler\<close> behaves as a dictionary assignment: the category then names the
  new handler, the other categories keep theirs, and the keys stay distinct.
\<close>

theorem register_handler_dict:
  "map_of (register_handler hs c h) c = Some h
   \<and> (c' \<noteq> c \<longrightarrow> map_of (register_handler hs c h) c' = map_of hs c')
   \<and> (distinct (map fst hs) \<longrightarrow> distinct (map fst (register_handler hs c h)))"
  by (simp add: register_handler_lookup register_handler_distinct)

theorem register_handler_dict_witness:
  "map_of (register_handler [(''system'', function_handler)] ''system'' system_handler) ''system''
     = Some system_handler
   \<and> map_of (register_handler [(''system'', function_handler)] ''ai'' engine_handler) ''system''
     = Some function_handler
   \<and> distinct (map fst (register_handler [(''system'', function_handler)] ''ai'' engine_handler))"
  using register_handler_dict [of "[(''system'', function_handler)]" "''system''" system_handler
      "''ai''"]
    register_handler_dict [of "[(''system'', function_handler)]" "''ai''" engine_handler
      "''system''"]
  by simp

text \<open>
  C9 (as amended). In a registry (its keys distinct), let the handler of a category
  define \<open>get_available_actions\<close>, returning \<open>v\<close>. Whenever \<open>get_available_tasks\<close>
  returns, it maps that category to exactly \<open>v\<close>, whatever else is registered; and it
  does return when every registered handler's \<open>get_available_actions\<close>, where there
  is one, is a method that returns. Nothing is caught in \<open>get_available_tasks\<close>: one
  handler whose enumeration raises makes the whole call raise.
\<close>

theorem available_tasks_declared_list:
  assumes "distinct (map fst hs)" and "map_of hs c = Some h"
    and "map_of (attrs h) ''get_available_actions'' = Some (Method f)"
    and "f NoArgs = Inr v"
  shows "(\<forall>m. get_available_tasks hs = Inr m \<longrightarrow> m c = Some v)
     \<and> ((\<forall>(c', h') \<in> set hs. \<forall>x. map_of (attrs h') ''get_available_actions'' = Some x
            \<longrightarrow> (\<exists>g w. x = Method g \<and> g NoArgs = Inr w))
         \<longrightarrow> (\<exists>m. get_available_tasks hs = Inr m \<and> m c = Some v))"
proof -
  have member: "(c, h) \<in> set hs"
    using assms(2) by (rule map_of_SomeD)
  have entry: "m c = Some v" if "get_available_tasks hs = Inr m" for m
    using available_tasks_loop_entry [OF that [unfolded get_available_tasks_def] assms(1) member]
      available_actions_declared [OF assms(3)] assms(4)
    by simp
  have "\<exists>m. get_available_tasks hs = Inr m"
    if "\<forall>(c', h') \<in> set hs. \<forall>x. map_of (attrs h') ''get_available_actions'' = Some x
            \<longrightarrow> (\<exists>g w. x = Method g \<and> g NoArgs = Inr w)"
    unfolding get_available_tasks_def
  proof (rule available_tasks_loop_returns, clarify)
    fix c' h'
    assume "(c', h') \<in> set hs"
    with that have "\<forall>x. map_of (attrs h') ''get_available_actions'' = Some x
            \<longrightarrow> (\<exists>g w. x = Method g \<and> g NoArgs = Inr w)"
      by blast
    then show "\<exists>v. available_actions h' = Inr v"
      by (rule available_actions_returns)
  qed
  with entry show ?thesis by blast
qed

theorem available_tasks_declared_list_witness:
  "\<exists>m. get_available_tasks
          (register_handler (register_handler [] ''system'' system_handler) ''ai'' engine_handler)
        = Inr m
      \<and> m ''system'' = Some (PList (map PStr
            [''shutdown'', ''restart'', ''lock_screen'', ''volume_up'', ''volume_down'',
             ''open_app'', ''close_app'', ''get_system_info'', ''take_screenshot'']))"
  using available_tasks_declared_list [where
      hs = "register_handler (register_handler [] ''system'' system_handler) ''ai'' engine_handler"
      and c = "''system''" and h = system_handler
      and f = "\<lambda>a. Inr (PList (map PStr
            [''shutdown'', ''restart'', ''lock_screen'', ''volume_up'', ''volume_down'',
             ''open_app'', ''close_app'', ''get_system_info'', ''take_screenshot'']))"
      and v = "PList (map PStr
            [''shutdown'', ''restart'', ''lock_screen'', ''volume_up'', ''volume_down'',
             ''open_app'', ''close_app'', ''get_system_info'', ''take_screenshot''])"]
  by (simp add: system_handler_def engine_handler_def)

text \<open>The claim as written fails: next to a handler whose \<open>get_available_actions()\<close>
  raises, the \<open>system\<close> category is mapped to nothing, because the call raises.\<close>

theorem available_tasks_counterexample:
  "map_of [(''system'', system_handler), (''power'', exiting_handler)] ''system''
      = Some system_handler
   \<and> hasattr system_handler ''get_available_actions''
   \<and> get_available_tasks [(''system'', system_handler), (''power'', exiting_handler)]
      = Inl (Raised OtherException ''unavailable'')"
  by (simp add: get_available_tasks_def available_actions_def hasattr_def call_attr_def
      system_handler_def exiting_handler_def)

end
